theory Spec2Isabelle
  imports Main
begin

section \<open>Data model\<close>

text \<open>
  The module works on a host-provided character document (the Foundry/PF2E actor).
  Only the parts of the document that the module's code reads or writes are kept.
  JavaScript numbers are modelled as unbounded integers; optional properties
  (read with \<open>?.\<close> and \<open>??\<close> in the source) are \<open>option\<close> values.
\<close>

record resource =
  r_value :: int
  r_max :: int

record frequency =
  f_value :: int
  f_max :: int
  f_per :: string

record slot =
  s_value :: int
  s_max :: int

text \<open>
  An embedded item. \<open>i_slots\<close> is \<open>system.slots\<close> of a spellcasting entry, keyed by
  the slot level \<open>L\<close> of the key \<open>slotL\<close>; \<open>i_temporary\<close> is
  \<open>system.temporary === true\<close>.
\<close>

record item =
  i_id :: string
  i_name :: string
  i_type :: string
  i_consumableType :: "string option"
  i_frequency :: "frequency option"
  i_temporary :: bool
  i_slots :: "(int \<times> slot) list option"

text \<open>
  The actor. \<open>hdFlag\<close> is the flag \<open>current\<close> in the scope \<open>hit-dice-healing\<close>
  (\<open>None\<close> when it was never written); \<open>conditions\<close> maps a condition slug to its
  value (\<open>None\<close> for a condition without a value).
\<close>

record actor =
  a_name :: string
  a_level :: "int option"
  hdFlag :: "int option"
  a_class :: "string option"
  a_detailsClass :: "string option"
  a_conMod :: "int option"
  hp_value :: int
  hp_max :: int
  a_focus :: "resource option"
  a_reagents :: "resource option"
  a_dailyCraftingComplete :: bool
  a_conditions :: "(string \<times> int option) list"
  a_items :: "item list"
  a_sheetRendered :: bool

subsection \<open>Effects\<close>

text \<open>
  Every call that leaves the module (notification, persistence write, roll, chat
  message, sheet refresh) is recorded, in order, in the event log of the world.
\<close>

datatype arg = AInt int | AStr string

datatype msg =
    Plain string
  | Localize string
  | Format string "(string \<times> arg) list"
  | Cat msg msg

datatype actor_field = HpValue | FocusValue | ReagentsValue

datatype item_field = FrequencyValue | SlotValue int

datatype flag_value = FInt int | FBool bool

record roll_card =
  rc_diceSpent :: int
  rc_dieType :: int
  rc_formula :: string
  rc_rollTotal :: int
  rc_healing :: int
  rc_remaining :: int
  rc_maxDice :: int
  rc_wasLimited :: bool

datatype chat =
    RollCard roll_card
  | SlotCard msg
  | RestCard string "msg list"

datatype event =
    Warn msg
  | Info msg
  | Error msg
  | SetFlag string string flag_value
  | ActorUpdate "(actor_field \<times> int) list" bool
  | ItemUpdate string "(item_field \<times> int) list" bool
  | DecreaseCondition string bool
  | DeleteEmbedded "string list"
  | RollEvaluated string
  | ChatMessage chat
  | SheetRender
  | OpenModal

record world =
  w_actor :: actor
  w_log :: "event list"

definition emit :: "event \<Rightarrow> world \<Rightarrow> world" where
  "emit e w = w\<lparr>w_log := w_log w @ [e]\<rparr>"

subsection \<open>Host operations on the actor\<close>

text \<open>
  \<open>actor.setFlag('hit-dice-healing', 'current', v)\<close> of the host: stores the value
  and records the write.
\<close>

definition setFlagCurrent :: "int \<Rightarrow> world \<Rightarrow> world" where
  "setFlagCurrent v w =
     emit (SetFlag ''hit-dice-healing'' ''current'' (FInt v))
       (w\<lparr>w_actor := (w_actor w)\<lparr>hdFlag := Some v\<rparr>\<rparr>)"

fun applyActorField :: "actor_field \<times> int \<Rightarrow> actor \<Rightarrow> actor" where
  "applyActorField (HpValue, v) a = a\<lparr>hp_value := v\<rparr>"
| "applyActorField (FocusValue, v) a =
     a\<lparr>a_focus := map_option (\<lambda>f. f\<lparr>r_value := v\<rparr>) (a_focus a)\<rparr>"
| "applyActorField (ReagentsValue, v) a =
     a\<lparr>a_reagents := map_option (\<lambda>r. r\<lparr>r_value := v\<rparr>) (a_reagents a)\<rparr>"

text \<open>\<open>actor.update(data, {render})\<close>: writes every path of \<open>data\<close> in one call.\<close>

definition actorUpdate :: "(actor_field \<times> int) list \<Rightarrow> bool \<Rightarrow> world \<Rightarrow> world" where
  "actorUpdate upd render w =
     emit (ActorUpdate upd render) (w\<lparr>w_actor := fold applyActorField upd (w_actor w)\<rparr>)"

section \<open>HitDiceManager\<close>

subsection \<open>Pool bookkeeping\<close>

definition getMaxHitDice :: "actor \<Rightarrow> int" where
  "getMaxHitDice a = (case a_level a of None \<Rightarrow> 1 | Some l \<Rightarrow> l) + 1"

definition getCurrentHitDice :: "actor \<Rightarrow> int" where
  "getCurrentHitDice a =
     (case hdFlag a of None \<Rightarrow> getMaxHitDice a | Some stored \<Rightarrow> stored)"

definition setCurrentHitDice :: "int \<Rightarrow> world \<Rightarrow> world" where
  "setCurrentHitDice v w =
     (let mx = getMaxHitDice (w_actor w);
          clamped = max 0 (min v mx)
      in setFlagCurrent clamped w)"

definition getConModifier :: "actor \<Rightarrow> int" where
  "getConModifier a = (case a_conMod a of None \<Rightarrow> 0 | Some m \<Rightarrow> m)"

subsection \<open>Die type\<close>

definition CLASS_DIE_TYPES :: "(string \<times> int) list" where
  "CLASS_DIE_TYPES =
     [(''psychic'', 6), (''sorcerer'', 6), (''witch'', 6), (''wizard'', 6),
      (''alchemist'', 8), (''animist'', 8), (''bard'', 8), (''cleric'', 8),
      (''commander'', 8), (''druid'', 8), (''gunslinger'', 8), (''investigator'', 8),
      (''inventor'', 8), (''kineticist'', 8), (''oracle'', 8), (''rogue'', 8),
      (''thaumaturge'', 8),
      (''champion'', 10), (''exemplar'', 10), (''fighter'', 10), (''guardian'', 10),
      (''magus'', 10), (''monk'', 10), (''ranger'', 10), (''summoner'', 10),
      (''swashbuckler'', 10),
      (''barbarian'', 12)]"

definition lowerChar :: "char \<Rightarrow> char" where
  "lowerChar c =
     (let n = (of_char c :: nat)
      in if 65 \<le> n \<and> n \<le> 90 then char_of (n + 32) else c)"

definition toLowerCase :: "string \<Rightarrow> string" where
  "toLowerCase s = map lowerChar s"

text \<open>
  The class name is looked for on three paths, the first that is defined wins. The
  diagnostic written to the console for an unknown class is not an effect of the model.
\<close>

definition className :: "actor \<Rightarrow> string option" where
  "className a =
     (case a_class a of
        Some c \<Rightarrow> Some (toLowerCase c)
      | None \<Rightarrow>
         (case a_detailsClass a of
            Some c \<Rightarrow> Some (toLowerCase c)
          | None \<Rightarrow>
             (case find (\<lambda>i. i_type i = ''class'') (a_items a) of
                Some i \<Rightarrow> Some (toLowerCase (i_name i))
              | None \<Rightarrow> None)))"

definition getDieType :: "actor \<Rightarrow> int" where
  "getDieType a =
     (case className a of
        None \<Rightarrow> 8
      | Some c \<Rightarrow>
         (if c \<noteq> [] then (case map_of CLASS_DIE_TYPES c of Some d \<Rightarrow> d | None \<Rightarrow> 8)
          else 8))"

subsection \<open>Range and formula\<close>

record range =
  range_min :: int
  range_max :: int

definition calculateRange :: "int \<Rightarrow> int \<Rightarrow> int \<Rightarrow> range" where
  "calculateRange diceCount dieType conMod =
     (let totalConMod = conMod * diceCount;
          rawMin = diceCount + totalConMod;
          mn = max diceCount rawMin;
          mx = max diceCount ((dieType * diceCount) + totalConMod)
      in \<lparr>range_min = mn, range_max = mx\<rparr>)"

text \<open>Decimal rendering of a number inside a template literal.\<close>

definition digit :: "nat \<Rightarrow> char" where
  "digit n = char_of (48 + n)"

function showNat :: "nat \<Rightarrow> string" where
  "showNat n = (if n < 10 then [digit n] else showNat (n div 10) @ [digit (n mod 10)])"
  by pat_completeness auto
termination
  by (relation "measure id") auto

declare showNat.simps [simp del]

definition showInt :: "int \<Rightarrow> string" where
  "showInt i = (if i < 0 then CHR ''-'' # showNat (nat (- i)) else showNat (nat i))"

definition buildFormula :: "int \<Rightarrow> int \<Rightarrow> int \<Rightarrow> string" where
  "buildFormula diceCount dieType conMod =
     (let totalMod = conMod * diceCount
      in if totalMod = 0 then showInt diceCount @ ''d'' @ showInt dieType
         else if totalMod > 0 then
           showInt diceCount @ ''d'' @ showInt dieType @ ''+'' @ showInt totalMod
         else showInt diceCount @ ''d'' @ showInt dieType @ showInt totalMod)"

subsection \<open>Rolling and healing\<close>

record roll_result =
  rr_formula :: string
  rr_total :: int
  rr_healing :: int

text \<open>
  \<open>sendChatMessage\<close>: posts the roll card. The card's text comes from a template of the
  host; the model keeps the data handed to the template.
\<close>

definition sendChatMessage ::
  "string \<Rightarrow> int \<Rightarrow> int \<Rightarrow> int \<Rightarrow> int \<Rightarrow> int \<Rightarrow> world \<Rightarrow> world" where
  "sendChatMessage formula rollTotal totalHealing actualHealing diceSpent remaining w =
     (let mx = getMaxHitDice (w_actor w);
          dieType = getDieType (w_actor w)
      in emit (ChatMessage (RollCard
           \<lparr>rc_diceSpent = diceSpent, rc_dieType = dieType, rc_formula = formula,
            rc_rollTotal = rollTotal, rc_healing = actualHealing,
            rc_remaining = remaining, rc_maxDice = mx,
            rc_wasLimited = (totalHealing > actualHealing)\<rparr>)) w)"

text \<open>
  \<open>rollAndHeal\<close>. The roll engine of the host is the parameter \<open>rollEngine\<close>: the total
  it returns for a formula. The result \<open>None\<close> is the source's \<open>null\<close>.
\<close>

definition rollAndHeal ::
  "(string \<Rightarrow> int) \<Rightarrow> int \<Rightarrow> world \<Rightarrow> roll_result option \<times> world" where
  "rollAndHeal rollEngine diceCount w =
     (let a = w_actor w;
          current = getCurrentHitDice a
      in if diceCount > current then
           (None, emit (Warn (Plain (a_name a @ '' hat nicht genug Hit Dice!''))) w)
         else if diceCount < 1 then
           (None, emit (Warn (Plain ''Mindestens 1 Hit Die erforderlich!'')) w)
         else
           (let dieType = getDieType a;
                conMod = getConModifier a;
                formula = buildFormula diceCount dieType conMod;
                w1 = emit (RollEvaluated formula) w;
                rollTotal = rollEngine formula;
                healing = max rollTotal diceCount;
                currentHP = hp_value a;
                maxHP = hp_max a;
                newHP = min (currentHP + healing) maxHP;
                actualHealing = newHP - currentHP;
                w2 = actorUpdate [(HpValue, newHP)] True w1;
                w3 = setCurrentHitDice (current - diceCount) w2;
                w4 = sendChatMessage formula rollTotal healing actualHealing diceCount
                       (current - diceCount) w3
            in (Some \<lparr>rr_formula = formula, rr_total = rollTotal,
                      rr_healing = actualHealing\<rparr>, w4)))"

subsection \<open>Replenishing\<close>

record hd_result =
  replenished :: int
  hd_total :: int

definition replenishHitDice :: "world \<Rightarrow> hd_result \<times> world" where
  "replenishHitDice w =
     (let mx = getMaxHitDice (w_actor w);
          current = getCurrentHitDice (w_actor w)
      in if current < mx then
           (\<lparr>replenished = mx - current, hd_total = mx\<rparr>, setCurrentHitDice mx w)
         else (\<lparr>replenished = 0, hd_total = mx\<rparr>, w))"

subsection \<open>Spell slot recovery\<close>


text \<open>\<open>actor.items.get(id)\<close> of the host collection.\<close>

definition getItem :: "actor \<Rightarrow> string \<Rightarrow> item option" where
  "getItem a eid = find (\<lambda>i. i_id i = eid) (a_items a)"

fun updateSlotValue :: "int \<Rightarrow> int \<Rightarrow> (int \<times> slot) list \<Rightarrow> (int \<times> slot) list" where
  "updateSlotValue L v [] = []"
| "updateSlotValue L v ((k, sd) # rest) =
     (if k = L then (k, sd\<lparr>s_value := v\<rparr>) # rest else (k, sd) # updateSlotValue L v rest)"

fun applyItemField :: "item_field \<times> int \<Rightarrow> item \<Rightarrow> item" where
  "applyItemField (FrequencyValue, v) i =
     i\<lparr>i_frequency := map_option (\<lambda>f. f\<lparr>f_value := v\<rparr>) (i_frequency i)\<rparr>"
| "applyItemField (SlotValue L, v) i =
     i\<lparr>i_slots := map_option (updateSlotValue L v) (i_slots i)\<rparr>"

fun updateFirst :: "string \<Rightarrow> (item \<Rightarrow> item) \<Rightarrow> item list \<Rightarrow> item list" where
  "updateFirst eid f [] = []"
| "updateFirst eid f (i # rest) =
     (if i_id i = eid then f i # rest else i # updateFirst eid f rest)"

text \<open>
  \<open>item.update(data, {render})\<close> on the item with the given id: writes the paths of
  \<open>data\<close> to that item in one call.
\<close>

definition itemUpdate :: "string \<Rightarrow> (item_field \<times> int) list \<Rightarrow> bool \<Rightarrow> world \<Rightarrow> world" where
  "itemUpdate eid upd render w =
     emit (ItemUpdate eid upd render)
       (w\<lparr>w_actor := (w_actor w)
           \<lparr>a_items := updateFirst eid (fold applyItemField upd) (a_items (w_actor w))\<rparr>\<rparr>)"



text \<open>
  The slot of level \<open>L\<close> of the entry \<open>eid\<close>, when there is one, and its current
  value.
\<close>

definition slotData :: "actor \<Rightarrow> string \<Rightarrow> int \<Rightarrow> slot option" where
  "slotData a eid L =
     (case getItem a eid of
        None \<Rightarrow> None
      | Some entry \<Rightarrow>
         (case i_slots entry of
            None \<Rightarrow> None
          | Some slots \<Rightarrow> map_of slots L))"

definition slotCurrent :: "actor \<Rightarrow> string \<Rightarrow> int \<Rightarrow> int option" where
  "slotCurrent a eid L = map_option s_value (slotData a eid L)"

section \<open>RestManager\<close>

subsection \<open>Conditions of the host\<close>

text \<open>
  The condition API belongs to the host system, not to the module. Its contract:
  \<open>hasCondition\<close> and \<open>getCondition\<close> look a slug up; \<open>decreaseCondition\<close> deletes
  the condition when \<open>forceRemove\<close> is set, when the condition has no value, or when the
  value lowered by one is 0, and otherwise stores the lowered value. A call for an
  absent condition changes nothing.
\<close>

definition hasCondition :: "actor \<Rightarrow> string \<Rightarrow> bool" where
  "hasCondition a slug = (map_of (a_conditions a) slug \<noteq> None)"

definition getCondition :: "actor \<Rightarrow> string \<Rightarrow> int option option" where
  "getCondition a slug = map_of (a_conditions a) slug"

definition decreaseCondition :: "string \<Rightarrow> bool \<Rightarrow> world \<Rightarrow> world" where
  "decreaseCondition slug forceRemove w =
     (let a = w_actor w;
          removed = filter (\<lambda>(k, v). k \<noteq> slug) (a_conditions a);
          conds =
            (case map_of (a_conditions a) slug of
               None \<Rightarrow> a_conditions a
             | Some None \<Rightarrow> removed
             | Some (Some n) \<Rightarrow>
                (let newValue = max (n - 1) 0
                 in if forceRemove \<or> newValue = 0 then removed
                    else map (\<lambda>(k, v). if k = slug then (k, Some newValue) else (k, v))
                           (a_conditions a)))
      in emit (DecreaseCondition slug forceRemove) (w\<lparr>w_actor := a\<lparr>a_conditions := conds\<rparr>\<rparr>))"

text \<open>
  The test \<open>cond?.value <= 1\<close> of the source: \<open>undefined <= 1\<close> is false,
  \<open>null <= 1\<close> is true.
\<close>

definition valueAtMostOne :: "int option option \<Rightarrow> bool" where
  "valueAtMostOne c =
     (case c of None \<Rightarrow> False | Some None \<Rightarrow> True | Some (Some n) \<Rightarrow> n \<le> 1)"

subsection \<open>Condition decay\<close>

definition conditionRemoved :: "string \<Rightarrow> msg" where
  "conditionRemoved label =
     Format ''HIT_DICE_HEALING.ConditionRemoved'' [(''condition'', AStr label)]"

definition conditionReduced :: "string \<Rightarrow> msg" where
  "conditionReduced label =
     Format ''HIT_DICE_HEALING.ConditionReduced'' [(''condition'', AStr label)]"

text \<open>
  The blocks for doomed and for drained are the same code up to the slug and the
  label; \<open>decreaseByOne\<close> is that block.
\<close>

definition decreaseByOne :: "string \<Rightarrow> string \<Rightarrow> world \<times> msg list \<Rightarrow> world \<times> msg list" where
  "decreaseByOne slug label st =
     (case st of (w, messages) \<Rightarrow>
        if hasCondition (w_actor w) slug then
          (if valueAtMostOne (getCondition (w_actor w) slug) then
             (decreaseCondition slug True w, messages @ [conditionRemoved label])
           else
             (decreaseCondition slug False w, messages @ [conditionReduced label]))
        else (w, messages))"

definition removeFatigued :: "world \<times> msg list \<Rightarrow> world \<times> msg list" where
  "removeFatigued st =
     (case st of (w, messages) \<Rightarrow>
        if hasCondition (w_actor w) ''fatigued'' then
          (decreaseCondition ''fatigued'' True w, messages @ [conditionRemoved ''Fatigued''])
        else (w, messages))"

definition removeWounded :: "world \<times> msg list \<Rightarrow> world \<times> msg list" where
  "removeWounded st =
     (case st of (w, messages) \<Rightarrow>
        if hasCondition (w_actor w) ''wounded'' then
          (if hp_value (w_actor w) \<ge> hp_max (w_actor w) then
             (decreaseCondition ''wounded'' True w, messages @ [conditionRemoved ''Wounded''])
           else (w, messages @ [Localize ''HIT_DICE_HEALING.WoundsNotHealed'']))
        else (w, messages))"

definition handleRestConditions :: "world \<times> msg list \<Rightarrow> world \<times> msg list" where
  "handleRestConditions st =
     removeWounded
       (decreaseByOne ''drained'' ''Drained''
          (decreaseByOne ''doomed'' ''Doomed'' (removeFatigued st)))"

subsection \<open>Daily resources\<close>

text \<open>
  Items are addressed by their id, which the host collection keeps unique. The state
  of the two loops is the world together with the local \<open>dailyRefreshed\<close>.
\<close>

definition isWand :: "item \<Rightarrow> bool" where
  "isWand i = (i_type i = ''consumable'' \<and> i_consumableType i = Some ''wand'')"

definition rechargeWand :: "item \<Rightarrow> world \<times> bool \<Rightarrow> world \<times> bool" where
  "rechargeWand wand st =
     (case st of (w, dailyRefreshed) \<Rightarrow>
        (case i_frequency wand of
           Some f \<Rightarrow> (itemUpdate (i_id wand) [(FrequencyValue, f_max f)] False w, True)
         | None \<Rightarrow> (w, dailyRefreshed)))"

definition refreshFrequency :: "item \<Rightarrow> world \<times> bool \<Rightarrow> world \<times> bool" where
  "refreshFrequency it st =
     (case st of (w, dailyRefreshed) \<Rightarrow>
        (case i_frequency it of
           Some f \<Rightarrow>
             if f_per f = ''day'' \<and> f_value f < f_max f then
               (itemUpdate (i_id it) [(FrequencyValue, f_max f)] False w, True)
             else (w, dailyRefreshed)
         | None \<Rightarrow> (w, dailyRefreshed)))"

text \<open>\<open>actor.setFlag('pf2e', 'dailyCraftingComplete', false)\<close>.\<close>

definition resetDailyCrafting :: "world \<Rightarrow> world" where
  "resetDailyCrafting w =
     emit (SetFlag ''pf2e'' ''dailyCraftingComplete'' (FBool False))
       (w\<lparr>w_actor := (w_actor w)\<lparr>a_dailyCraftingComplete := False\<rparr>\<rparr>)"

text \<open>\<open>actor.deleteEmbeddedDocuments('Item', ids, {render: false})\<close>.\<close>

definition deleteEmbeddedDocuments :: "string list \<Rightarrow> world \<Rightarrow> world" where
  "deleteEmbeddedDocuments ids w =
     emit (DeleteEmbedded ids)
       (w\<lparr>w_actor := (w_actor w)
           \<lparr>a_items := filter (\<lambda>i. i_id i \<notin> set ids) (a_items (w_actor w))\<rparr>\<rparr>)"

definition refreshDailyResources ::
  "world \<Rightarrow> msg list \<Rightarrow> (actor_field \<times> int) list
     \<Rightarrow> world \<times> msg list \<times> (actor_field \<times> int) list" where
  "refreshDailyResources w messages updates =
     (let wands = filter isWand (a_items (w_actor w));
          (w1, dailyRefreshed) = fold rechargeWand wands (w, False);
          (messages, updates) =
            (case a_reagents (w_actor w1) of
               Some reagents \<Rightarrow>
                 if r_value reagents < r_max reagents then
                   (messages @ [Localize ''HIT_DICE_HEALING.InfusedReagentsRestored''],
                    updates @ [(ReagentsValue, r_max reagents)])
                 else (messages, updates)
             | None \<Rightarrow> (messages, updates));
          w2 = (if a_dailyCraftingComplete (w_actor w1) then resetDailyCrafting w1 else w1);
          (w3, dailyRefreshed) =
            fold refreshFrequency (a_items (w_actor w2)) (w2, dailyRefreshed);
          temporaryItems = filter i_temporary (a_items (w_actor w3));
          (w4, messages) =
            (if temporaryItems \<noteq> [] then
               (deleteEmbeddedDocuments (map i_id temporaryItems) w3,
                messages @ [Localize ''HIT_DICE_HEALING.TemporaryItemsExpired''])
             else (w3, messages));
          messages =
            (if dailyRefreshed then
               messages @ [Localize ''HIT_DICE_HEALING.DailyResourcesReset'']
             else messages);
          messages = messages @ [Localize ''HIT_DICE_HEALING.HPUnchanged''];
          messages = messages @ [Localize ''HIT_DICE_HEALING.SpellSlotsUnchanged'']
      in (w4, messages, updates))"

subsection \<open>The three rests\<close>

definition sendRestChatMessage :: "string \<Rightarrow> msg list \<Rightarrow> world \<Rightarrow> world" where
  "sendRestChatMessage restType messages w =
     emit (ChatMessage (RestCard restType messages)) w"


definition hitDiceRestored :: "int \<Rightarrow> msg" where
  "hitDiceRestored n = Format ''HIT_DICE_HEALING.HitDiceRestored'' [(''count'', AInt n)]"

definition restoreFocus ::
  "actor \<Rightarrow> msg list \<Rightarrow> (actor_field \<times> int) list \<Rightarrow> msg list \<times> (actor_field \<times> int) list" where
  "restoreFocus a messages updates =
     (case a_focus a of
        Some focus \<Rightarrow>
          if r_max focus > 0 then
            (if r_value focus < r_max focus then
               (messages @ [Localize ''HIT_DICE_HEALING.FocusRestored''],
                updates @ [(FocusValue, r_max focus)])
             else (messages @ [Localize ''HIT_DICE_HEALING.FocusAlreadyFull''], updates))
          else (messages, updates)
      | None \<Rightarrow> (messages, updates))"

definition performLongRest :: "world \<Rightarrow> world" where
  "performLongRest w =
     (let (hdResult, w1) = replenishHitDice w;
          messages =
            [if replenished hdResult > 0 then hitDiceRestored (replenished hdResult)
             else Localize ''HIT_DICE_HEALING.HitDiceAlreadyFull''];
          (messages, updates) = restoreFocus (w_actor w1) messages [];
          (w2, messages) = handleRestConditions (w1, messages);
          (w3, messages, updates) = refreshDailyResources w2 messages updates;
          w4 = (if updates \<noteq> [] then actorUpdate updates False w3 else w3);
          w5 = sendRestChatMessage ''long'' messages w4
      in if a_sheetRendered (w_actor w5) then emit SheetRender w5 else w5)"

text \<open>
  \<open>performFullRest\<close>. The rest procedure of the host is an optional capability:
  \<open>None\<close> when \<open>game.pf2e?.actions?.restForTheNight\<close> is absent.
\<close>

definition performFullRest :: "(world \<Rightarrow> world) option \<Rightarrow> world \<Rightarrow> world" where
  "performFullRest restForTheNight w =
     (let w1 = (case restForTheNight of Some rest \<Rightarrow> rest w | None \<Rightarrow> w);
          (hdResult, w2) = replenishHitDice w1
      in if replenished hdResult > 0 then
           emit (Info (Cat (Plain (a_name (w_actor w2) @ '': ''))
                           (hitDiceRestored (replenished hdResult)))) w2
         else w2)"

subsection \<open>The operations of the module\<close>



subsection \<open>A sample character\<close>

text \<open>
  A level 5 cleric with two of six hit dice left, 10 of 40 hit points, the conditions
  fatigued, doomed 1 and wounded 1, a spellcasting entry, a wand, a daily ability and
  a temporary item.
\<close>

definition sampleActor :: actor where
  "sampleActor =
     \<lparr>a_name = ''Mira'', a_level = Some 5, hdFlag = Some 2, a_class = Some ''Cleric'',
      a_detailsClass = None, a_conMod = Some 3, hp_value = 10, hp_max = 40,
      a_focus = Some \<lparr>r_value = 1, r_max = 2\<rparr>, a_reagents = None,
      a_dailyCraftingComplete = False,
      a_conditions = [(''fatigued'', None), (''doomed'', Some 1), (''wounded'', Some 1)],
      a_items =
        [\<lparr>i_id = ''e1'', i_name = ''Divine Spells'', i_type = ''spellcastingEntry'',
          i_consumableType = None, i_frequency = None, i_temporary = False,
          i_slots = Some [(1, \<lparr>s_value = 1, s_max = 3\<rparr>), (2, \<lparr>s_value = 2, s_max = 2\<rparr>),
                          (5, \<lparr>s_value = 2, s_max = 2\<rparr>)]\<rparr>,
         \<lparr>i_id = ''w1'', i_name = ''Wand of Heal'', i_type = ''consumable'',
          i_consumableType = Some ''wand'',
          i_frequency = Some \<lparr>f_value = 0, f_max = 1, f_per = ''day''\<rparr>,
          i_temporary = False, i_slots = None\<rparr>,
         \<lparr>i_id = ''f1'', i_name = ''Battle Medicine'', i_type = ''feat'',
          i_consumableType = None,
          i_frequency = Some \<lparr>f_value = 0, f_max = 1, f_per = ''day''\<rparr>,
          i_temporary = False, i_slots = None\<rparr>,
         \<lparr>i_id = ''t1'', i_name = ''Infused Elixir'', i_type = ''consumable'',
          i_consumableType = Some ''elixir'', i_frequency = None,
          i_temporary = True, i_slots = None\<rparr>],
      a_sheetRendered = True\<rparr>"

definition sampleWorld :: world where
  "sampleWorld = \<lparr>w_actor = sampleActor, w_log = []\<rparr>"

text \<open>
  The same character one level lower stores five hit dice and is then edited, in the
  host, down to level 1: the stored value now exceeds the maximum of 2.
\<close>

definition leveledDownWorld :: world where
  "leveledDownWorld =
     (let w1 = setCurrentHitDice 5 (sampleWorld\<lparr>w_actor := sampleActor\<lparr>a_level := Some 4\<rparr>\<rparr>)
      in w1\<lparr>w_actor := (w_actor w1)\<lparr>a_level := Some 1\<rparr>\<rparr>)"

text \<open>
  The sample character with one more item: a spellcasting entry that is flagged
  temporary.
\<close>

definition tempEntryWorld :: world where
  "tempEntryWorld =
     sampleWorld\<lparr>w_actor := sampleActor\<lparr>a_items :=
       \<lparr>i_id = ''e9'', i_name = ''Borrowed Spells'', i_type = ''spellcastingEntry'',
        i_consumableType = None, i_frequency = None, i_temporary = True,
        i_slots = Some [(1, \<lparr>s_value = 1, s_max = 2\<rparr>)]\<rparr> # a_items sampleActor\<rparr>\<rparr>"

subsection \<open>Notions used in the statements\<close>

definition isFailure :: "event \<Rightarrow> bool" where
  "isFailure e = (case e of Warn m \<Rightarrow> True | Error m \<Rightarrow> True | _ \<Rightarrow> False)"

definition isActorUpdate :: "event \<Rightarrow> bool" where
  "isActorUpdate e = (case e of ActorUpdate upd r \<Rightarrow> True | _ \<Rightarrow> False)"

definition isFieldUpdate :: "event \<Rightarrow> bool" where
  "isFieldUpdate e =
     (case e of ActorUpdate upd r \<Rightarrow> True | ItemUpdate eid upd r \<Rightarrow> True | _ \<Rightarrow> False)"

definition isWrite :: "event \<Rightarrow> bool" where
  "isWrite e =
     (case e of
        SetFlag scope key v \<Rightarrow> True
      | ActorUpdate upd r \<Rightarrow> True
      | ItemUpdate eid upd r \<Rightarrow> True
      | DecreaseCondition slug force \<Rightarrow> True
      | DeleteEmbedded ids \<Rightarrow> True
      | _ \<Rightarrow> False)"

definition isChat :: "event \<Rightarrow> bool" where
  "isChat e = (case e of ChatMessage c \<Rightarrow> True | _ \<Rightarrow> False)"

text \<open>The events that the steps of a Long Rest before the batched update may emit.\<close>

definition restStepEvent :: "event \<Rightarrow> bool" where
  "restStepEvent e =
     (case e of
        SetFlag scope key v \<Rightarrow> True
      | ItemUpdate eid upd r \<Rightarrow> list_all (\<lambda>p. fst p = FrequencyValue) upd
      | DecreaseCondition slug force \<Rightarrow> True
      | DeleteEmbedded ids \<Rightarrow> True
      | _ \<Rightarrow> False)"

text \<open>A write that touches the HP or the value of a spell slot.\<close>

definition writesHpOrSlot :: "event \<Rightarrow> bool" where
  "writesHpOrSlot e =
     (case e of
        ActorUpdate upd r \<Rightarrow> list_ex (\<lambda>p. fst p = HpValue) upd
      | ItemUpdate eid upd r \<Rightarrow> list_ex (\<lambda>p. fst p \<noteq> FrequencyValue) upd
      | _ \<Rightarrow> False)"

text \<open>The message lists of the rest summaries posted to the chat, in order.\<close>

definition restSummaries :: "event list \<Rightarrow> msg list list" where
  "restSummaries es =
     concat (map (\<lambda>e. case e of
                         ChatMessage c \<Rightarrow> (case c of RestCard t ms \<Rightarrow> [ms] | _ \<Rightarrow> [])
                       | _ \<Rightarrow> []) es)"

text \<open>The events a call added to the log.\<close>

definition newEvents :: "world \<Rightarrow> world \<Rightarrow> event list" where
  "newEvents w w' = drop (length (w_log w)) (w_log w')"

text \<open>What the deletion of temporary items looks at in an item, besides the slots.\<close>

definition itemCore :: "item \<Rightarrow> string \<times> (int \<times> slot) list option \<times> bool" where
  "itemCore i = (i_id i, i_slots i, i_temporary i)"

text \<open>
  A step that changes nothing of the actor but the frequency of items and the daily
  crafting flag, and emits only events of the kind above.
\<close>

definition itemsStep :: "world \<Rightarrow> world \<Rightarrow> bool" where
  "itemsStep w w' =
     (\<exists>I d es. w_actor w' = (w_actor w)\<lparr>a_dailyCraftingComplete := d, a_items := I\<rparr>
        \<and> map itemCore I = map itemCore (a_items (w_actor w))
        \<and> w_log w' = w_log w @ es \<and> list_all restStepEvent es)"

text \<open>A step that changes nothing of the actor but its conditions.\<close>

definition conditionsStep :: "world \<Rightarrow> world \<Rightarrow> bool" where
  "conditionsStep w w' =
     (\<exists>C es. w_actor w' = (w_actor w)\<lparr>a_conditions := C\<rparr>
        \<and> w_log w' = w_log w @ es \<and> list_all restStepEvent es)"

text \<open>
  The changes a Long Rest accumulates for its batched update, read off the actor
  before the rest: the focus pool and the infused reagents, each set to its maximum
  when it is below it.
\<close>

definition focusPart :: "actor \<Rightarrow> (actor_field \<times> int) list" where
  "focusPart a =
     (case a_focus a of
        Some f \<Rightarrow> if r_max f > 0 \<and> r_value f < r_max f then [(FocusValue, r_max f)] else []
      | None \<Rightarrow> [])"

definition reagentsPart :: "actor \<Rightarrow> (actor_field \<times> int) list" where
  "reagentsPart a =
     (case a_reagents a of
        Some r \<Rightarrow> if r_value r < r_max r then [(ReagentsValue, r_max r)] else []
      | None \<Rightarrow> [])"


section \<open>Properties of the pool and of healing\<close>

lemma calculateRange_min_le_max_aux:
  fixes n d c :: int
  assumes "1 \<le> n" "1 \<le> d"
  shows "n + c * n \<le> d * n + c * n"
proof -
  have "1 * n \<le> d * n" using assms by (intro mult_right_mono) auto
  then show ?thesis by simp
qed

text \<open>
  C7. For \<open>n \<ge> 1\<close>, a die size among 6, 8, 10, 12 and a modifier between \<open>-5\<close> and
  \<open>10\<close>, \<open>calculateRange n d c\<close> has \<open>min = max(n, n + c*n)\<close> and
  \<open>max = max(n, d*n + c*n)\<close>, and \<open>min \<le> max\<close>, \<open>min \<ge> n\<close>, \<open>max \<ge> n\<close>.
\<close>

theorem calculateRange_bounds:
  assumes "1 \<le> n" and "d \<in> {6, 8, 10, 12}" and "- 5 \<le> c" and "c \<le> 10"
  shows "range_min (calculateRange n d c) = max n (n + c * n)
       \<and> range_max (calculateRange n d c) = max n (d * n + c * n)
       \<and> range_min (calculateRange n d c) \<le> range_max (calculateRange n d c)
       \<and> n \<le> range_min (calculateRange n d c)
       \<and> n \<le> range_max (calculateRange n d c)"
proof -
  from assms(2) have "1 \<le> d" by auto
  with assms(1) have "n + c * n \<le> d * n + c * n"
    by (rule calculateRange_min_le_max_aux)
  then show ?thesis
    by (simp add: calculateRange_def Let_def max_def)
qed

theorem calculateRange_bounds_witness:
  "range_min (calculateRange 2 6 (- 5)) = 2
 \<and> range_max (calculateRange 2 6 (- 5)) = 2
 \<and> range_min (calculateRange 2 8 3) = 8
 \<and> range_max (calculateRange 2 8 3) = 22"
  using calculateRange_bounds [of 2 6 "- 5"] calculateRange_bounds [of 2 8 3]
  by simp

lemma sample_pool:
  "getCurrentHitDice sampleActor = 2" "getMaxHitDice sampleActor = 6"
  "hp_value sampleActor = 10" "hp_max sampleActor = 40"
  by (simp_all add: getCurrentHitDice_def getMaxHitDice_def sampleActor_def)

lemma sample_world:
  "w_actor sampleWorld = sampleActor" "w_log sampleWorld = []"
  "map i_id (filter i_temporary (a_items sampleActor)) = [''t1'']"
  by (simp_all add: sampleWorld_def sampleActor_def)

lemma leveledDown_pool:
  "hdFlag (w_actor leveledDownWorld) = Some 5"
  "getMaxHitDice (w_actor leveledDownWorld) = 2"
  "getCurrentHitDice (w_actor leveledDownWorld) = 5"
  by (simp_all add: leveledDownWorld_def Let_def setCurrentHitDice_def setFlagCurrent_def
        emit_def getCurrentHitDice_def getMaxHitDice_def sampleWorld_def)

lemmas rollAndHeal_unfold =
  rollAndHeal_def Let_def emit_def actorUpdate_def setCurrentHitDice_def
  setFlagCurrent_def sendChatMessage_def getCurrentHitDice_def

text \<open>
  C1. When the pool holds a value between 0 and the maximum and
  \<open>1 \<le> diceCount \<le> current\<close>, \<open>rollAndHeal\<close> succeeds: the healing it returns is
  \<open>min (max rollTotal diceCount) (maxHP - currentHP)\<close>, where \<open>rollTotal\<close> is what the
  roll engine gives for the formula; the HP written to the actor is
  \<open>currentHP + actualHealing\<close>; the pool is lower by exactly \<open>diceCount\<close>.
\<close>

theorem rollAndHeal_success:
  assumes "0 \<le> getCurrentHitDice (w_actor w)"
      and "getCurrentHitDice (w_actor w) \<le> getMaxHitDice (w_actor w)"
      and "1 \<le> n" and "n \<le> getCurrentHitDice (w_actor w)"
  shows "case rollAndHeal rollEngine n w of
           (None, w') \<Rightarrow> False
         | (Some r, w') \<Rightarrow>
             rr_total r =
               rollEngine (buildFormula n (getDieType (w_actor w)) (getConModifier (w_actor w)))
           \<and> rr_healing r = min (max (rr_total r) n) (hp_max (w_actor w) - hp_value (w_actor w))
           \<and> hp_value (w_actor w') = hp_value (w_actor w) + rr_healing r
           \<and> ActorUpdate [(HpValue, hp_value (w_actor w) + rr_healing r)] True \<in> set (w_log w')
           \<and> getCurrentHitDice (w_actor w') = getCurrentHitDice (w_actor w) - n"
  using assms
  by (auto simp: rollAndHeal_unfold getMaxHitDice_def split: option.splits)

theorem rollAndHeal_success_witness:
  "getCurrentHitDice (w_actor sampleWorld) = 2
 \<and> getMaxHitDice (w_actor sampleWorld) = 6
 \<and> (case rollAndHeal (\<lambda>f. 14) 2 sampleWorld of
       (None, w') \<Rightarrow> False
     | (Some r, w') \<Rightarrow>
         rr_total r = 14 \<and> rr_healing r = 14 \<and> hp_value (w_actor w') = 24
       \<and> getCurrentHitDice (w_actor w') = 0)"
  using rollAndHeal_success [of sampleWorld 2 "\<lambda>f. 14"]
  by (simp add: sampleWorld_def sample_pool split: prod.splits option.splits)

text \<open>
  C3. When \<open>diceCount < 1\<close> or \<open>diceCount > current\<close>, \<open>rollAndHeal\<close> returns \<open>null\<close>,
  the only event is one warning (not enough dice when \<open>diceCount > current\<close>, which
  is tested first; at least one die otherwise; the two cases overlap only for a
  negative pool), so no roll is made, and the actor, hence the pool and the HP, is
  unchanged.
\<close>

theorem rollAndHeal_rejects:
  assumes "n < 1 \<or> n > getCurrentHitDice (w_actor w)"
  shows "fst (rollAndHeal rollEngine n w) = None
       \<and> w_log (snd (rollAndHeal rollEngine n w)) =
           w_log w @
           [Warn (if n > getCurrentHitDice (w_actor w)
                  then Plain (a_name (w_actor w) @ '' hat nicht genug Hit Dice!'')
                  else Plain ''Mindestens 1 Hit Die erforderlich!'')]
       \<and> w_actor (snd (rollAndHeal rollEngine n w)) = w_actor w
       \<and> getCurrentHitDice (w_actor (snd (rollAndHeal rollEngine n w)))
           = getCurrentHitDice (w_actor w)
       \<and> hp_value (w_actor (snd (rollAndHeal rollEngine n w))) = hp_value (w_actor w)"
  using assms by (auto simp: rollAndHeal_def Let_def emit_def)

theorem rollAndHeal_rejects_witness:
  "rollAndHeal (\<lambda>f. 14) 0 sampleWorld
     = (None, \<lparr>w_actor = sampleActor,
               w_log = [Warn (Plain ''Mindestens 1 Hit Die erforderlich!'')]\<rparr>)
 \<and> rollAndHeal (\<lambda>f. 14) 3 sampleWorld
     = (None, \<lparr>w_actor = sampleActor,
               w_log = [Warn (Plain ''Mira hat nicht genug Hit Dice!'')]\<rparr>)"
proof -
  have nm: "a_name sampleActor = ''Mira''" by (simp add: sampleActor_def)
  have eq: "\<And>p a l. fst p = a \<Longrightarrow> w_actor (snd p) = w_actor sampleWorld
                 \<Longrightarrow> w_log (snd p) = l \<Longrightarrow> p = (a, \<lparr>w_actor = sampleActor, w_log = l\<rparr>)"
    by (auto simp: sampleWorld_def prod_eq_iff)
  show ?thesis
    using rollAndHeal_rejects [of 0 sampleWorld "\<lambda>f. 14"]
          rollAndHeal_rejects [of 3 sampleWorld "\<lambda>f. 14"]
    by (auto simp: sampleWorld_def sample_pool nm intro!: eq [unfolded sampleWorld_def])
qed

text \<open>
  C10. Reads and replenishment do not restore the invariant: when the stored value
  exceeds the maximum, \<open>getCurrentHitDice\<close> returns it as stored, and
  \<open>replenishHitDice\<close> writes nothing, reports 0 dice replenished, and leaves a pool
  that differs from the maximum.
\<close>

theorem stored_value_above_max_is_kept:
  assumes "hdFlag (w_actor w) = Some v" and "getMaxHitDice (w_actor w) < v"
  shows "getCurrentHitDice (w_actor w) = v
       \<and> replenishHitDice w = (\<lparr>replenished = 0, hd_total = getMaxHitDice (w_actor w)\<rparr>, w)
       \<and> getCurrentHitDice (w_actor (snd (replenishHitDice w)))
           \<noteq> getMaxHitDice (w_actor (snd (replenishHitDice w)))"
  using assms by (simp add: getCurrentHitDice_def replenishHitDice_def Let_def)

theorem stored_value_above_max_is_kept_witness:
  "hdFlag (w_actor leveledDownWorld) = Some 5
 \<and> getMaxHitDice (w_actor leveledDownWorld) = 2
 \<and> getCurrentHitDice (w_actor leveledDownWorld) = 5
 \<and> replenishHitDice leveledDownWorld
      = (\<lparr>replenished = 0, hd_total = 2\<rparr>, leveledDownWorld)"
  using stored_value_above_max_is_kept [of leveledDownWorld 5]
  by (simp add: leveledDown_pool)

text \<open>
  C8. Without the rest procedure of the host, Full Rest still completes and only
  replenishes the hit dice: for a pool between 0 and the maximum, the pool ends at the
  maximum, the HP is unchanged, no warning or error is raised, nothing of the actor
  changes but the hit dice flag (conditions, items with their slots, focus and
  reagents are as before), and the only events are the write of the flag and the
  notice, and none when the pool was full.
\<close>

theorem fullRest_without_host_procedure:
  assumes "0 \<le> getCurrentHitDice (w_actor w)"
      and "getCurrentHitDice (w_actor w) \<le> getMaxHitDice (w_actor w)"
  shows "getCurrentHitDice (w_actor (performFullRest None w)) = getMaxHitDice (w_actor w)
       \<and> getMaxHitDice (w_actor (performFullRest None w)) = getMaxHitDice (w_actor w)
       \<and> hp_value (w_actor (performFullRest None w)) = hp_value (w_actor w)
       \<and> hp_max (w_actor (performFullRest None w)) = hp_max (w_actor w)
       \<and> filter isFailure (w_log (performFullRest None w)) = filter isFailure (w_log w)
       \<and> w_actor (performFullRest None w) =
           (if getCurrentHitDice (w_actor w) < getMaxHitDice (w_actor w)
            then (w_actor w)\<lparr>hdFlag := Some (getMaxHitDice (w_actor w))\<rparr> else w_actor w)
       \<and> a_conditions (w_actor (performFullRest None w)) = a_conditions (w_actor w)
       \<and> a_items (w_actor (performFullRest None w)) = a_items (w_actor w)
       \<and> a_focus (w_actor (performFullRest None w)) = a_focus (w_actor w)
       \<and> a_reagents (w_actor (performFullRest None w)) = a_reagents (w_actor w)
       \<and> w_log (performFullRest None w) =
           w_log w @
           (if getCurrentHitDice (w_actor w) < getMaxHitDice (w_actor w)
            then [SetFlag ''hit-dice-healing'' ''current'' (FInt (getMaxHitDice (w_actor w))),
                  Info (Cat (Plain (a_name (w_actor w) @ '': ''))
                            (hitDiceRestored
                               (getMaxHitDice (w_actor w) - getCurrentHitDice (w_actor w))))]
            else [])"
  using assms
  by (auto simp: performFullRest_def replenishHitDice_def Let_def setCurrentHitDice_def
        setFlagCurrent_def emit_def getCurrentHitDice_def getMaxHitDice_def isFailure_def
      split: option.splits)

theorem fullRest_without_host_procedure_witness:
  "getCurrentHitDice (w_actor sampleWorld) = 2
 \<and> getCurrentHitDice (w_actor (performFullRest None sampleWorld)) = 6
 \<and> hp_value (w_actor (performFullRest None sampleWorld)) = 10
 \<and> filter isFailure (w_log (performFullRest None sampleWorld)) = []
 \<and> w_actor (performFullRest None sampleWorld) = sampleActor\<lparr>hdFlag := Some 6\<rparr>
 \<and> w_log (performFullRest None sampleWorld) =
      [SetFlag ''hit-dice-healing'' ''current'' (FInt 6),
       Info (Cat (Plain (a_name sampleActor @ '': '')) (hitDiceRestored 4))]"
  using fullRest_without_host_procedure [of sampleWorld]
  by (simp add: sample_world sample_pool) (simp add: isFailure_def getCurrentHitDice_def)


section \<open>Properties of spell slot recovery\<close>




lemma applySlotValue_frame [simp]:
  "i_id (fold applyItemField [(SlotValue L, v)] i) = i_id i"
  "i_slots (fold applyItemField [(SlotValue L, v)] i) = map_option (updateSlotValue L v) (i_slots i)"
  by simp_all



lemma slotData_hdFlag_update [simp]: "slotData (a\<lparr>hdFlag := x\<rparr>) eid L = slotData a eid L"
  by (simp add: slotData_def getItem_def)

lemma getMaxHitDice_itemUpdate [simp]:
  "getMaxHitDice (w_actor (itemUpdate eid upd r w)) = getMaxHitDice (w_actor w)"
  by (simp add: itemUpdate_def emit_def getMaxHitDice_def)




lemma sample_slots:
  "getItem sampleActor ''zz'' = None"
  "slotData sampleActor ''e1'' 1 = Some \<lparr>s_value = 1, s_max = 3\<rparr>"
  "slotData sampleActor ''e1'' 2 = Some \<lparr>s_value = 2, s_max = 2\<rparr>"
  "slotData sampleActor ''e1'' 5 = Some \<lparr>s_value = 2, s_max = 2\<rparr>"
  "slotData sampleActor ''t1'' 1 = None"
  by (simp_all add: slotData_def getItem_def sampleActor_def)







section \<open>Properties of the Long Rest\<close>

lemma emit_simps [simp]:
  "w_actor (emit e w) = w_actor w" "w_log (emit e w) = w_log w @ [e]"
  by (simp_all add: emit_def)

subsection \<open>Steps on items\<close>

lemma itemsStep_refl: "itemsStep w w"
  unfolding itemsStep_def
  by (rule exI [of _ "a_items (w_actor w)"], rule exI [of _ "a_dailyCraftingComplete (w_actor w)"],
      rule exI [of _ "[]"]) simp

lemma itemsStep_trans:
  assumes "itemsStep w w1" and "itemsStep w1 w2"
  shows "itemsStep w w2"
proof -
  from assms(1) obtain I d es where 1:
    "w_actor w1 = (w_actor w)\<lparr>a_dailyCraftingComplete := d, a_items := I\<rparr>"
    "map itemCore I = map itemCore (a_items (w_actor w))"
    "w_log w1 = w_log w @ es" "list_all restStepEvent es"
    unfolding itemsStep_def by blast
  from assms(2) obtain I' d' es' where 2:
    "w_actor w2 = (w_actor w1)\<lparr>a_dailyCraftingComplete := d', a_items := I'\<rparr>"
    "map itemCore I' = map itemCore (a_items (w_actor w1))"
    "w_log w2 = w_log w1 @ es'" "list_all restStepEvent es'"
    unfolding itemsStep_def by blast
  have "w_actor w2 = (w_actor w)\<lparr>a_dailyCraftingComplete := d', a_items := I'\<rparr>"
    using 1(1) 2(1) by simp
  moreover have "map itemCore I' = map itemCore (a_items (w_actor w))"
    using 1(1,2) 2(2) by simp
  moreover have "w_log w2 = w_log w @ (es @ es')" using 1(3) 2(3) by simp
  moreover have "list_all restStepEvent (es @ es')" using 1(4) 2(4) by simp
  ultimately show ?thesis unfolding itemsStep_def by blast
qed

lemma itemCore_updateFirst:
  assumes "\<And>i. itemCore (f i) = itemCore i"
  shows "map itemCore (updateFirst eid f xs) = map itemCore xs"
  using assms by (induction xs) auto

lemma itemsStep_frequencyUpdate:
  "itemsStep w (itemUpdate eid [(FrequencyValue, v)] r w)"
proof -
  let ?I = "updateFirst eid (fold applyItemField [(FrequencyValue, v)]) (a_items (w_actor w))"
  have "map itemCore ?I = map itemCore (a_items (w_actor w))"
    by (rule itemCore_updateFirst) (simp add: itemCore_def)
  moreover have "w_actor (itemUpdate eid [(FrequencyValue, v)] r w)
      = (w_actor w)\<lparr>a_dailyCraftingComplete := a_dailyCraftingComplete (w_actor w), a_items := ?I\<rparr>"
    by (simp add: itemUpdate_def)
  moreover have "w_log (itemUpdate eid [(FrequencyValue, v)] r w)
      = w_log w @ [ItemUpdate eid [(FrequencyValue, v)] r]"
    by (simp add: itemUpdate_def)
  moreover have "list_all restStepEvent [ItemUpdate eid [(FrequencyValue, v)] r]"
    by (simp add: restStepEvent_def)
  ultimately show ?thesis unfolding itemsStep_def by blast
qed

lemma itemsStep_rechargeWand: "itemsStep w (fst (rechargeWand x (w, b)))"
  by (simp add: rechargeWand_def itemsStep_refl itemsStep_frequencyUpdate split: option.splits)

lemma itemsStep_refreshFrequency: "itemsStep w (fst (refreshFrequency x (w, b)))"
  by (simp add: refreshFrequency_def itemsStep_refl itemsStep_frequencyUpdate split: option.splits)

lemma itemsStep_fold:
  assumes "\<And>x w b. itemsStep w (fst (f x (w, b)))"
  shows "itemsStep w (fst (fold f xs (w, b)))"
proof (induction xs arbitrary: w b)
  case Nil
  show ?case by (simp add: itemsStep_refl)
next
  case (Cons x xs)
  obtain w' b' where s: "f x (w, b) = (w', b')" by (cases "f x (w, b)")
  have "itemsStep w w'" using assms [of w x b] s by simp
  moreover have "itemsStep w' (fst (fold f xs (w', b')))" by (rule Cons.IH)
  ultimately show ?case using s by (simp add: itemsStep_trans)
qed

lemma itemsStep_resetDailyCrafting: "itemsStep w (resetDailyCrafting w)"
  unfolding itemsStep_def resetDailyCrafting_def
  by (rule exI [of _ "a_items (w_actor w)"], rule exI [of _ False],
      rule exI [of _ "[SetFlag ''pf2e'' ''dailyCraftingComplete'' (FBool False)]"])
     (simp add: restStepEvent_def)

subsection \<open>Steps on conditions\<close>

lemma conditionsStep_refl: "conditionsStep w w"
  unfolding conditionsStep_def
  by (rule exI [of _ "a_conditions (w_actor w)"], rule exI [of _ "[]"]) simp

lemma conditionsStep_trans:
  assumes "conditionsStep w w1" and "conditionsStep w1 w2"
  shows "conditionsStep w w2"
proof -
  from assms(1) obtain C es where 1:
    "w_actor w1 = (w_actor w)\<lparr>a_conditions := C\<rparr>"
    "w_log w1 = w_log w @ es" "list_all restStepEvent es"
    unfolding conditionsStep_def by blast
  from assms(2) obtain C' es' where 2:
    "w_actor w2 = (w_actor w1)\<lparr>a_conditions := C'\<rparr>"
    "w_log w2 = w_log w1 @ es'" "list_all restStepEvent es'"
    unfolding conditionsStep_def by blast
  have "w_actor w2 = (w_actor w)\<lparr>a_conditions := C'\<rparr>" using 1(1) 2(1) by simp
  moreover have "w_log w2 = w_log w @ (es @ es')" using 1(2) 2(2) by simp
  moreover have "list_all restStepEvent (es @ es')" using 1(3) 2(3) by simp
  ultimately show ?thesis unfolding conditionsStep_def by blast
qed

lemma conditionsStep_decreaseCondition: "conditionsStep w (decreaseCondition slug force w)"
proof -
  obtain C where "w_actor (decreaseCondition slug force w) = (w_actor w)\<lparr>a_conditions := C\<rparr>"
    by (simp add: decreaseCondition_def Let_def)
  moreover have "w_log (decreaseCondition slug force w) = w_log w @ [DecreaseCondition slug force]"
    by (simp add: decreaseCondition_def Let_def)
  moreover have "list_all restStepEvent [DecreaseCondition slug force]"
    by (simp add: restStepEvent_def)
  ultimately show ?thesis unfolding conditionsStep_def by blast
qed

lemma conditionsStep_removeFatigued: "conditionsStep w (fst (removeFatigued (w, ms)))"
  by (simp add: removeFatigued_def conditionsStep_refl conditionsStep_decreaseCondition)

lemma conditionsStep_decreaseByOne: "conditionsStep w (fst (decreaseByOne slug label (w, ms)))"
  by (simp add: decreaseByOne_def conditionsStep_refl conditionsStep_decreaseCondition)

lemma conditionsStep_removeWounded: "conditionsStep w (fst (removeWounded (w, ms)))"
  by (simp add: removeWounded_def conditionsStep_refl conditionsStep_decreaseCondition)

lemma conditionsStep_handleRestConditions:
  "conditionsStep w (fst (handleRestConditions (w, ms)))"
proof -
  obtain w1 m1 where 1: "removeFatigued (w, ms) = (w1, m1)" by (cases "removeFatigued (w, ms)")
  obtain w2 m2 where 2: "decreaseByOne ''doomed'' ''Doomed'' (w1, m1) = (w2, m2)"
    by (cases "decreaseByOne ''doomed'' ''Doomed'' (w1, m1)")
  obtain w3 m3 where 3: "decreaseByOne ''drained'' ''Drained'' (w2, m2) = (w3, m3)"
    by (cases "decreaseByOne ''drained'' ''Drained'' (w2, m2)")
  have "conditionsStep w w1" using conditionsStep_removeFatigued [of w ms] 1 by simp
  moreover have "conditionsStep w1 w2" using conditionsStep_decreaseByOne [of w1 "''doomed''" "''Doomed''" m1] 2 by simp
  moreover have "conditionsStep w2 w3" using conditionsStep_decreaseByOne [of w2 "''drained''" "''Drained''" m2] 3 by simp
  moreover have "conditionsStep w3 (fst (removeWounded (w3, m3)))"
    by (rule conditionsStep_removeWounded)
  ultimately show ?thesis
    by (auto simp: handleRestConditions_def 1 2 3 intro: conditionsStep_trans)
qed


subsection \<open>Daily resources\<close>

lemma itemsStep_reagents: "itemsStep w w' \<Longrightarrow> a_reagents (w_actor w') = a_reagents (w_actor w)"
  unfolding itemsStep_def by auto

lemma temporary_ids_core:
  "map i_id (filter i_temporary I) = map fst (filter (\<lambda>c. snd (snd c)) (map itemCore I))"
  by (induction I) (auto simp: itemCore_def)

lemma itemCore_filter_ids:
  "map itemCore (filter (\<lambda>i. i_id i \<notin> S) I) = filter (\<lambda>c. fst c \<notin> S) (map itemCore I)"
  by (induction I) (auto simp: itemCore_def)

lemma refreshDailyResources_shape:
  assumes "refreshDailyResources w ms upd = (w4, ms4, upd4)"
  shows "\<exists>I d es mid.
           w_actor w4 = (w_actor w)\<lparr>a_dailyCraftingComplete := d, a_items := I\<rparr>
         \<and> map itemCore I =
             filter (\<lambda>c. fst c \<notin> set (map i_id (filter i_temporary (a_items (w_actor w)))))
               (map itemCore (a_items (w_actor w)))
         \<and> w_log w4 = w_log w @ es \<and> list_all restStepEvent es
         \<and> upd4 = upd @ reagentsPart (w_actor w)
         \<and> ms4 = ms @ mid @ [Localize ''HIT_DICE_HEALING.HPUnchanged'',
                              Localize ''HIT_DICE_HEALING.SpellSlotsUnchanged'']"
proof -
  obtain w1 b1 where f1:
    "fold rechargeWand (filter isWand (a_items (w_actor w))) (w, False) = (w1, b1)"
    by (cases "fold rechargeWand (filter isWand (a_items (w_actor w))) (w, False)")
  define w2 where "w2 = (if a_dailyCraftingComplete (w_actor w1) then resetDailyCrafting w1 else w1)"
  obtain w3 b3 where f3: "fold refreshFrequency (a_items (w_actor w2)) (w2, b1) = (w3, b3)"
    by (cases "fold refreshFrequency (a_items (w_actor w2)) (w2, b1)")
  have s1: "itemsStep w w1"
    using itemsStep_fold [of rechargeWand w "filter isWand (a_items (w_actor w))" False,
            OF itemsStep_rechargeWand] f1 by simp
  have s2: "itemsStep w1 w2"
    by (simp add: w2_def itemsStep_refl itemsStep_resetDailyCrafting)
  have s3: "itemsStep w2 w3"
    using itemsStep_fold [of refreshFrequency w2 "a_items (w_actor w2)" b1,
            OF itemsStep_refreshFrequency] f3 by simp
  have s: "itemsStep w w3" using s1 s2 s3 by (blast intro: itemsStep_trans)
  then obtain I3 d es where 3:
    "w_actor w3 = (w_actor w)\<lparr>a_dailyCraftingComplete := d, a_items := I3\<rparr>"
    "map itemCore I3 = map itemCore (a_items (w_actor w))"
    "w_log w3 = w_log w @ es" "list_all restStepEvent es"
    unfolding itemsStep_def by blast
  let ?T = "map i_id (filter i_temporary (a_items (w_actor w)))"
  have T: "map i_id (filter i_temporary I3) = ?T"
    by (simp add: temporary_ids_core 3(2))
  have items3: "a_items (w_actor w3) = I3" using 3(1) by simp
  have r1: "a_reagents (w_actor w1) = a_reagents (w_actor w)" by (rule itemsStep_reagents [OF s1])
  have unf: "refreshDailyResources w ms upd =
     (let (messages, updates) =
            (case a_reagents (w_actor w1) of
               Some reagents \<Rightarrow>
                 if r_value reagents < r_max reagents then
                   (ms @ [Localize ''HIT_DICE_HEALING.InfusedReagentsRestored''],
                    upd @ [(ReagentsValue, r_max reagents)])
                 else (ms, upd)
             | None \<Rightarrow> (ms, upd));
          temporaryItems = filter i_temporary (a_items (w_actor w3));
          (w4, messages) =
            (if temporaryItems \<noteq> [] then
               (deleteEmbeddedDocuments (map i_id temporaryItems) w3,
                messages @ [Localize ''HIT_DICE_HEALING.TemporaryItemsExpired''])
             else (w3, messages));
          messages =
            (if b3 then
               messages @ [Localize ''HIT_DICE_HEALING.DailyResourcesReset'']
             else messages);
          messages = messages @ [Localize ''HIT_DICE_HEALING.HPUnchanged''];
          messages = messages @ [Localize ''HIT_DICE_HEALING.SpellSlotsUnchanged'']
      in (w4, messages, updates))"
    by (simp add: refreshDailyResources_def Let_def f1 w2_def [symmetric] f3
          split: prod.splits option.splits)
  have upd4: "upd4 = upd @ reagentsPart (w_actor w)"
    using assms unfolding unf
    by (auto simp: Let_def r1 reagentsPart_def split: option.splits if_splits prod.splits)
  have ms4: "\<exists>mid. ms4 = ms @ mid @ [Localize ''HIT_DICE_HEALING.HPUnchanged'',
                              Localize ''HIT_DICE_HEALING.SpellSlotsUnchanged'']"
    using assms unfolding unf
    by (auto simp: Let_def split: option.splits if_splits prod.splits)
  have w4: "w4 = (if filter i_temporary I3 \<noteq> []
                  then deleteEmbeddedDocuments (map i_id (filter i_temporary I3)) w3 else w3)"
    using assms unfolding unf
    by (auto simp: Let_def items3 split: option.splits if_splits prod.splits)
  show ?thesis
  proof (cases "filter i_temporary I3 = []")
    case True
    then have "?T = []" using T by simp
    then have "map itemCore I3 = filter (\<lambda>c. fst c \<notin> set ?T) (map itemCore (a_items (w_actor w)))"
      using 3(2) by simp
    moreover have "w4 = w3" using w4 True by simp
    ultimately show ?thesis using 3 upd4 ms4 by blast
  next
    case False
    let ?I = "filter (\<lambda>i. i_id i \<notin> set ?T) I3"
    have a4: "w_actor w4 = (w_actor w)\<lparr>a_dailyCraftingComplete := d, a_items := ?I\<rparr>"
      using w4 False 3(1) T by (simp add: deleteEmbeddedDocuments_def)
    have c4: "map itemCore ?I = filter (\<lambda>c. fst c \<notin> set ?T) (map itemCore (a_items (w_actor w)))"
      by (simp only: itemCore_filter_ids 3(2))
    have l4: "w_log w4 = w_log w @ (es @ [DeleteEmbedded ?T])"
      using w4 False 3(3) T by (simp add: deleteEmbeddedDocuments_def)
    have e4: "list_all restStepEvent (es @ [DeleteEmbedded ?T])"
      using 3(4) by (simp add: restStepEvent_def)
    show ?thesis using a4 c4 l4 e4 upd4 ms4 by blast
  qed
qed


subsection \<open>The shape of a Long Rest\<close>

lemma replenishHitDice_actor:
  "\<exists>H. w_actor (snd (replenishHitDice w)) = (w_actor w)\<lparr>hdFlag := H\<rparr>"
proof (cases "getCurrentHitDice (w_actor w) < getMaxHitDice (w_actor w)")
  case True
  then have "w_actor (snd (replenishHitDice w))
      = (w_actor w)\<lparr>hdFlag := Some (max 0 (getMaxHitDice (w_actor w)))\<rparr>"
    by (simp add: replenishHitDice_def Let_def setCurrentHitDice_def setFlagCurrent_def)
  then show ?thesis by blast
next
  case False
  then have "w_actor (snd (replenishHitDice w)) = (w_actor w)\<lparr>hdFlag := hdFlag (w_actor w)\<rparr>"
    by (simp add: replenishHitDice_def Let_def)
  then show ?thesis by blast
qed

lemma replenishHitDice_log:
  "\<exists>es. w_log (snd (replenishHitDice w)) = w_log w @ es \<and> list_all restStepEvent es"
  by (simp add: replenishHitDice_def Let_def setCurrentHitDice_def setFlagCurrent_def
        restStepEvent_def)

lemma restoreFocus_updates: "snd (restoreFocus a ms []) = focusPart a"
  by (auto simp: restoreFocus_def focusPart_def split: option.splits)

lemma fold_applyActorField_frame:
  assumes "list_all (\<lambda>p. fst p \<noteq> HpValue) upd"
  shows "\<exists>F R. fold applyActorField upd a = a\<lparr>a_focus := F, a_reagents := R\<rparr>"
  using assms
proof (induction upd arbitrary: a)
  case Nil
  have "a = a\<lparr>a_focus := a_focus a, a_reagents := a_reagents a\<rparr>" by simp
  then show ?case by (metis fold_simps(1))
next
  case (Cons p upd)
  obtain f v where p: "p = (f, v)" by (cases p)
  from Cons.prems p have nf: "f \<noteq> HpValue" and rest: "list_all (\<lambda>p. fst p \<noteq> HpValue) upd"
    by simp_all
  from nf obtain F0 R0 where 0: "applyActorField (f, v) a = a\<lparr>a_focus := F0, a_reagents := R0\<rparr>"
  proof (cases f)
    case FocusValue
    have "applyActorField (FocusValue, v) a
            = a\<lparr>a_focus := map_option (\<lambda>f. f\<lparr>r_value := v\<rparr>) (a_focus a), a_reagents := a_reagents a\<rparr>"
      by simp
    then show ?thesis using that FocusValue by blast
  next
    case ReagentsValue
    have "applyActorField (ReagentsValue, v) a
            = a\<lparr>a_focus := a_focus a, a_reagents := map_option (\<lambda>r. r\<lparr>r_value := v\<rparr>) (a_reagents a)\<rparr>"
      by simp
    then show ?thesis using that ReagentsValue by blast
  qed simp
  from Cons.IH [OF rest, of "a\<lparr>a_focus := F0, a_reagents := R0\<rparr>"]
  obtain F R where "fold applyActorField upd (a\<lparr>a_focus := F0, a_reagents := R0\<rparr>)
      = a\<lparr>a_focus := F0, a_reagents := R0\<rparr>\<lparr>a_focus := F, a_reagents := R\<rparr>"
    by blast
  then have "fold applyActorField (p # upd) a = a\<lparr>a_focus := F, a_reagents := R\<rparr>"
    using p 0 by simp
  then show ?case by blast
qed

lemma batch_no_hp: "list_all (\<lambda>p. fst p \<noteq> HpValue) (focusPart a @ reagentsPart a)"
  by (simp add: focusPart_def reagentsPart_def split: option.splits)

lemma performLongRest_shape:
  fixes w :: world
  defines "w1 \<equiv> snd (replenishHitDice w)"
  defines "upd \<equiv> focusPart (w_actor w) @ reagentsPart (w_actor w)"
  obtains H F R d C I pre mid ms1 w2 ms2 where
    "w_actor (performLongRest w)
       = (w_actor w)\<lparr>hdFlag := H, a_focus := F, a_reagents := R,
                    a_dailyCraftingComplete := d, a_conditions := C, a_items := I\<rparr>"
    "H = hdFlag (w_actor w1)"
    "handleRestConditions (w1, ms1) = (w2, ms2)"
    "C = a_conditions (w_actor w2)"
    "map itemCore I =
       filter (\<lambda>c. fst c \<notin> set (map i_id (filter i_temporary (a_items (w_actor w)))))
         (map itemCore (a_items (w_actor w)))"
    "w_log (performLongRest w)
       = w_log w @ pre @ (if upd = [] then [] else [ActorUpdate upd False])
           @ [ChatMessage (RestCard ''long''
                (ms2 @ mid @ [Localize ''HIT_DICE_HEALING.HPUnchanged'',
                              Localize ''HIT_DICE_HEALING.SpellSlotsUnchanged'']))]
           @ (if a_sheetRendered (w_actor w) then [SheetRender] else [])"
    "list_all restStepEvent pre"
proof -
  obtain hd where r: "replenishHitDice w = (hd, w1)"
    unfolding w1_def by (cases "replenishHitDice w") simp
  let ?m0 = "[if replenished hd > 0 then hitDiceRestored (replenished hd)
              else Localize ''HIT_DICE_HEALING.HitDiceAlreadyFull'']"
  obtain H where a1: "w_actor w1 = (w_actor w)\<lparr>hdFlag := H\<rparr>"
    unfolding w1_def using replenishHitDice_actor by blast
  have H: "H = hdFlag (w_actor w1)" by (simp add: a1)
  obtain es1 where l1: "w_log w1 = w_log w @ es1" "list_all restStepEvent es1"
    unfolding w1_def using replenishHitDice_log by blast
  obtain ms1 upd1 where f: "restoreFocus (w_actor w1) ?m0 [] = (ms1, upd1)"
    by (cases "restoreFocus (w_actor w1) ?m0 []")
  have "focusPart (w_actor w1) = focusPart (w_actor w)" by (simp add: a1 focusPart_def)
  then have upd1: "upd1 = focusPart (w_actor w)"
    using restoreFocus_updates [of "w_actor w1" ?m0] f by simp
  obtain w2 ms2 where c: "handleRestConditions (w1, ms1) = (w2, ms2)"
    by (cases "handleRestConditions (w1, ms1)")
  have "conditionsStep w1 w2" using conditionsStep_handleRestConditions [of w1 ms1] c by simp
  then obtain C es2 where 2: "w_actor w2 = (w_actor w1)\<lparr>a_conditions := C\<rparr>"
    "w_log w2 = w_log w1 @ es2" "list_all restStepEvent es2"
    unfolding conditionsStep_def by blast
  have C: "C = a_conditions (w_actor w2)" by (simp add: 2(1))
  have a2: "w_actor w2 = (w_actor w)\<lparr>hdFlag := H, a_conditions := C\<rparr>"
    by (simp add: 2(1) a1)
  obtain w3 ms3 upd3 where d: "refreshDailyResources w2 ms2 upd1 = (w3, ms3, upd3)"
    by (cases "refreshDailyResources w2 ms2 upd1") auto
  from refreshDailyResources_shape [OF d] obtain I d3 es3 mid where 3:
    "w_actor w3 = (w_actor w2)\<lparr>a_dailyCraftingComplete := d3, a_items := I\<rparr>"
    "map itemCore I =
       filter (\<lambda>c. fst c \<notin> set (map i_id (filter i_temporary (a_items (w_actor w2)))))
         (map itemCore (a_items (w_actor w2)))"
    "w_log w3 = w_log w2 @ es3" "list_all restStepEvent es3"
    "upd3 = upd1 @ reagentsPart (w_actor w2)"
    "ms3 = ms2 @ mid @ [Localize ''HIT_DICE_HEALING.HPUnchanged'',
                        Localize ''HIT_DICE_HEALING.SpellSlotsUnchanged'']"
    by blast
  have "reagentsPart (w_actor w2) = reagentsPart (w_actor w)" by (simp add: a2 reagentsPart_def)
  then have upd3: "upd3 = upd" using 3(5) upd1 by (simp add: upd_def)
  have cores: "map itemCore I =
       filter (\<lambda>c. fst c \<notin> set (map i_id (filter i_temporary (a_items (w_actor w)))))
         (map itemCore (a_items (w_actor w)))"
    using 3(2) by (simp add: a2)
  have a3: "w_actor w3 = (w_actor w)\<lparr>hdFlag := H, a_dailyCraftingComplete := d3,
              a_conditions := C, a_items := I\<rparr>"
    by (simp add: 3(1) a2)
  define w4 where "w4 = (if upd \<noteq> [] then actorUpdate upd False w3 else w3)"
  have "\<exists>F R. w_actor w4 = (w_actor w3)\<lparr>a_focus := F, a_reagents := R\<rparr>"
  proof (cases "upd = []")
    case True
    then have "w_actor w4 = (w_actor w3)\<lparr>a_focus := a_focus (w_actor w3),
            a_reagents := a_reagents (w_actor w3)\<rparr>"
      unfolding w4_def by simp
    then show ?thesis by blast
  next
    case False
    obtain F R where
      "fold applyActorField upd (w_actor w3) = (w_actor w3)\<lparr>a_focus := F, a_reagents := R\<rparr>"
      using fold_applyActorField_frame [OF batch_no_hp, of "w_actor w" "w_actor w3"]
      unfolding upd_def by blast
    then have "w_actor w4 = (w_actor w3)\<lparr>a_focus := F, a_reagents := R\<rparr>"
      using False unfolding w4_def by (simp add: actorUpdate_def)
    then show ?thesis by blast
  qed
  then obtain F R where a4: "w_actor w4 = (w_actor w3)\<lparr>a_focus := F, a_reagents := R\<rparr>"
    by blast
  have l4: "w_log w4 = w_log w3 @ (if upd = [] then [] else [ActorUpdate upd False])"
    unfolding w4_def by (simp add: actorUpdate_def)
  have sr: "a_sheetRendered (w_actor w4) = a_sheetRendered (w_actor w)"
    by (simp add: a4 a3)
  have res: "performLongRest w =
      (let w5 = sendRestChatMessage ''long'' ms3 w4
       in if a_sheetRendered (w_actor w5) then emit SheetRender w5 else w5)"
    by (simp add: performLongRest_def Let_def r f c d upd3 w4_def)
  have actor: "w_actor (performLongRest w)
       = (w_actor w)\<lparr>hdFlag := H, a_focus := F, a_reagents := R,
                    a_dailyCraftingComplete := d3, a_conditions := C, a_items := I\<rparr>"
    unfolding res by (simp add: Let_def sendRestChatMessage_def a4 a3)
  have log: "w_log (performLongRest w)
       = w_log w @ (es1 @ es2 @ es3) @ (if upd = [] then [] else [ActorUpdate upd False])
           @ [ChatMessage (RestCard ''long''
                (ms2 @ mid @ [Localize ''HIT_DICE_HEALING.HPUnchanged'',
                              Localize ''HIT_DICE_HEALING.SpellSlotsUnchanged'']))]
           @ (if a_sheetRendered (w_actor w) then [SheetRender] else [])"
    unfolding res by (simp add: Let_def sendRestChatMessage_def sr l4 3(3,6) 2(2) l1(1))
  have pre: "list_all restStepEvent (es1 @ es2 @ es3)" using l1(2) 2(3) 3(4) by simp
  show ?thesis
    by (rule that [OF actor H c C cores log pre])
qed

subsection \<open>Events of the steps\<close>

lemma restStepEvent_quiet:
  assumes "restStepEvent e"
  shows "\<not> writesHpOrSlot e" "\<not> isChat e" "\<not> isActorUpdate e"
  using assms
  by (auto simp: restStepEvent_def writesHpOrSlot_def isChat_def isActorUpdate_def
        list_all_iff list_ex_iff split: event.splits)

lemma restStepEvents_filters:
  assumes "list_all restStepEvent es"
  shows "filter writesHpOrSlot es = []" "filter isChat es = []" "filter isActorUpdate es = []"
    "restSummaries es = []" "dropWhile (\<lambda>e. \<not> isChat e) (es @ rest) = dropWhile (\<lambda>e. \<not> isChat e) rest"
  using assms
proof (induction es)
  case Nil
  {
    case 1 show ?case by simp
  next
    case 2 show ?case by simp
  next
    case 3 show ?case by simp
  next
    case 4 show ?case by (simp add: restSummaries_def)
  next
    case 5 show ?case by simp
  }
next
  case (Cons e es)
  {
    case 1 then show ?case using Cons.IH(1) restStepEvent_quiet(1) [of e] by simp
  next
    case 2 then show ?case using Cons.IH(2) restStepEvent_quiet(2) [of e] by simp
  next
    case 3 then show ?case using Cons.IH(3) restStepEvent_quiet(3) [of e] by simp
  next
    case 4 then show ?case using Cons.IH(4)
      by (auto simp: restSummaries_def restStepEvent_def split: event.splits)
  next
    case 5 then show ?case using Cons.IH(5) restStepEvent_quiet(2) [of e] by simp
  }
qed

lemma batch_events:
  "\<not> writesHpOrSlot (ActorUpdate (focusPart a @ reagentsPart a) r)"
  "\<not> isChat (ActorUpdate upd r)" "isActorUpdate (ActorUpdate upd r)"
  "isWrite (ActorUpdate upd r)"
  "isChat (ChatMessage c)" "\<not> isActorUpdate (ChatMessage c)" "\<not> isWrite (ChatMessage c)"
  "\<not> writesHpOrSlot (ChatMessage c)"
  "\<not> isChat SheetRender" "\<not> isActorUpdate SheetRender" "\<not> isWrite SheetRender"
  "\<not> writesHpOrSlot SheetRender"
  "restSummaries [] = []"
  "restSummaries (ActorUpdate upd r # es) = restSummaries es"
  "restSummaries (SheetRender # es) = restSummaries es"
  "restSummaries (ChatMessage (RestCard t ms) # es) = ms # restSummaries es"
  by (simp_all add: writesHpOrSlot_def isChat_def isActorUpdate_def isWrite_def restSummaries_def
        focusPart_def reagentsPart_def split: option.splits)

lemma restSummaries_append: "restSummaries (xs @ ys) = restSummaries xs @ restSummaries ys"
  by (simp add: restSummaries_def)

subsection \<open>Slots seen through the item cores\<close>

lemma slotData_core:
  "slotData a eid L =
     (case find (\<lambda>c. fst c = eid) (map itemCore (a_items a)) of
        None \<Rightarrow> None
      | Some c \<Rightarrow> (case fst (snd c) of None \<Rightarrow> None | Some sl \<Rightarrow> map_of sl L))"
proof -
  have "find (\<lambda>c. fst c = eid) (map itemCore xs) = map_option itemCore (find (\<lambda>i. i_id i = eid) xs)"
    for xs
    by (induction xs) (auto simp: itemCore_def)
  then show ?thesis
    by (simp add: slotData_def getItem_def itemCore_def split: option.splits)
qed

lemma find_filter_ids:
  "find (\<lambda>c. fst c = eid) (filter (\<lambda>c. fst c \<notin> S) cs)
     = (if eid \<in> S then None else find (\<lambda>c. fst c = eid) cs)"
  by (induction cs) auto

lemma slotData_deleted:
  assumes "map itemCore (a_items a') = filter (\<lambda>c. fst c \<notin> S) (map itemCore (a_items a))"
  shows "slotData a' eid L = (if eid \<in> S then None else slotData a eid L)"
  by (simp add: slotData_core assms find_filter_ids)

text \<open>
  C4. Long Rest leaves the current HP as it was and writes no spell slot: no write of
  the rest touches the HP or a slot, and the one summary posted contains the lines
  that HP and spell slots are unchanged. The rest deletes the items flagged temporary,
  of whatever type, and keeps the id, the slots and the flag of every other item: the
  slot of level \<open>L\<close> of entry \<open>eid\<close> reads the same after the rest as before when
  no temporary item has the id \<open>eid\<close>, and is gone with its item otherwise.
\<close>

theorem longRest_keeps_hp_and_slots:
  "hp_value (w_actor (performLongRest w)) = hp_value (w_actor w)
 \<and> slotCurrent (w_actor (performLongRest w)) eid L =
     (if eid \<in> set (map i_id (filter i_temporary (a_items (w_actor w)))) then None
      else slotCurrent (w_actor w) eid L)
 \<and> map itemCore (a_items (w_actor (performLongRest w))) =
     filter (\<lambda>c. fst c \<notin> set (map i_id (filter i_temporary (a_items (w_actor w)))))
       (map itemCore (a_items (w_actor w)))
 \<and> filter writesHpOrSlot (newEvents w (performLongRest w)) = []
 \<and> (case restSummaries (newEvents w (performLongRest w)) of
       [ms] \<Rightarrow> Localize ''HIT_DICE_HEALING.HPUnchanged'' \<in> set ms
             \<and> Localize ''HIT_DICE_HEALING.SpellSlotsUnchanged'' \<in> set ms
     | _ \<Rightarrow> False)"
proof -
  obtain H F R d C I pre mid ms1 w2 ms2 where s:
    "w_actor (performLongRest w)
       = (w_actor w)\<lparr>hdFlag := H, a_focus := F, a_reagents := R,
                    a_dailyCraftingComplete := d, a_conditions := C, a_items := I\<rparr>"
    "map itemCore I =
       filter (\<lambda>c. fst c \<notin> set (map i_id (filter i_temporary (a_items (w_actor w)))))
         (map itemCore (a_items (w_actor w)))"
    "w_log (performLongRest w)
       = w_log w @ pre
           @ (if focusPart (w_actor w) @ reagentsPart (w_actor w) = [] then []
              else [ActorUpdate (focusPart (w_actor w) @ reagentsPart (w_actor w)) False])
           @ [ChatMessage (RestCard ''long''
                (ms2 @ mid @ [Localize ''HIT_DICE_HEALING.HPUnchanged'',
                              Localize ''HIT_DICE_HEALING.SpellSlotsUnchanged'']))]
           @ (if a_sheetRendered (w_actor w) then [SheetRender] else [])"
    "list_all restStepEvent pre"
    by (rule performLongRest_shape [of w])
  have hp: "hp_value (w_actor (performLongRest w)) = hp_value (w_actor w)"
    by (simp add: s(1))
  have "a_items (w_actor (performLongRest w)) = I" by (simp add: s(1))
  then have slots: "slotData (w_actor (performLongRest w)) eid L =
     (if eid \<in> set (map i_id (filter i_temporary (a_items (w_actor w)))) then None
      else slotData (w_actor w) eid L)"
    using slotData_deleted [of "w_actor (performLongRest w)" _ "w_actor w" eid L] s(2)
    by simp
  have new: "newEvents w (performLongRest w) = pre
           @ (if focusPart (w_actor w) @ reagentsPart (w_actor w) = [] then []
              else [ActorUpdate (focusPart (w_actor w) @ reagentsPart (w_actor w)) False])
           @ [ChatMessage (RestCard ''long''
                (ms2 @ mid @ [Localize ''HIT_DICE_HEALING.HPUnchanged'',
                              Localize ''HIT_DICE_HEALING.SpellSlotsUnchanged'']))]
           @ (if a_sheetRendered (w_actor w) then [SheetRender] else [])"
    by (simp add: newEvents_def s(3))
  have quiet: "filter writesHpOrSlot (newEvents w (performLongRest w)) = []"
    unfolding new
    by (simp add: restStepEvents_filters(1) [OF s(4)] batch_events del: append_is_Nil_conv)
  have summ: "restSummaries (newEvents w (performLongRest w)) =
      [ms2 @ mid @ [Localize ''HIT_DICE_HEALING.HPUnchanged'',
                    Localize ''HIT_DICE_HEALING.SpellSlotsUnchanged'']]"
    unfolding new
    by (simp add: restSummaries_append restStepEvents_filters(4) [OF s(4)] batch_events)
  have kept: "map itemCore (a_items (w_actor (performLongRest w))) =
     filter (\<lambda>c. fst c \<notin> set (map i_id (filter i_temporary (a_items (w_actor w)))))
       (map itemCore (a_items (w_actor w)))"
    using s(2) by (simp add: s(1))
  show ?thesis
    using kept by (simp add: hp slots quiet summ slotCurrent_def)
qed

theorem longRest_keeps_hp_and_slots_witness:
  "hp_value (w_actor (performLongRest sampleWorld)) = 10
 \<and> slotCurrent (w_actor (performLongRest sampleWorld)) ''e1'' 1 = Some 1
 \<and> slotCurrent (w_actor (performLongRest sampleWorld)) ''e1'' 5 = Some 2
 \<and> slotCurrent (w_actor (performLongRest sampleWorld)) ''t1'' 1 = None"
  using longRest_keeps_hp_and_slots [of sampleWorld "''e1''" 1]
        longRest_keeps_hp_and_slots [of sampleWorld "''e1''" 5]
        longRest_keeps_hp_and_slots [of sampleWorld "''t1''" 1]
  by (simp add: sample_world sample_pool sample_slots slotCurrent_def)

theorem longRest_deletes_temporary_entry_counterexample:
  "slotCurrent (w_actor tempEntryWorld) ''e9'' 1 = Some 1
 \<and> slotCurrent (w_actor (performLongRest tempEntryWorld)) ''e9'' 1 = None
 \<and> slotCurrent (w_actor (performLongRest tempEntryWorld)) ''e9'' 1
      \<noteq> slotCurrent (w_actor tempEntryWorld) ''e9'' 1"
  by code_simp

subsection \<open>Condition decay in the scenario\<close>


lemma map_of_filter_slug:
  "map_of (filter (\<lambda>(k, v). k \<noteq> slug) xs) s = (if s = slug then None else map_of xs s)"
  by (induction xs) auto

lemma map_of_map_slug:
  "map_of (map (\<lambda>(k, v). if k = slug then (k, Some nv) else (k, v)) xs) s
     = (if s = slug then map_option (\<lambda>v. Some nv) (map_of xs s) else map_of xs s)"
  by (induction xs) auto

lemma getCondition_decreaseCondition:
  "getCondition (w_actor (decreaseCondition slug force w)) s =
     (if s = slug then
        (case getCondition (w_actor w) slug of
           None \<Rightarrow> None
         | Some None \<Rightarrow> None
         | Some (Some n) \<Rightarrow>
             if force \<or> max (n - 1) 0 = 0 then None else Some (Some (max (n - 1) 0)))
      else getCondition (w_actor w) s)"
  by (simp add: getCondition_def decreaseCondition_def Let_def map_of_filter_slug
        map_of_map_slug split: option.splits)

lemma hp_decreaseCondition [simp]:
  "hp_value (w_actor (decreaseCondition slug force w)) = hp_value (w_actor w)"
  "hp_max (w_actor (decreaseCondition slug force w)) = hp_max (w_actor w)"
  by (simp_all add: decreaseCondition_def Let_def)

lemma hasCondition_getCondition: "hasCondition a s = (getCondition a s \<noteq> None)"
  by (simp add: hasCondition_def getCondition_def)

lemma decreaseByOne_other:
  assumes "decreaseByOne slug label (w, ms) = (w', ms')" and "s \<noteq> slug"
  shows "getCondition (w_actor w') s = getCondition (w_actor w) s"
  using assms
  by (auto simp: decreaseByOne_def getCondition_decreaseCondition split: if_splits)

lemma decreaseByOne_frame:
  assumes "decreaseByOne slug label (w, ms) = (w', ms')"
  shows "hp_value (w_actor w') = hp_value (w_actor w)"
    and "hp_max (w_actor w') = hp_max (w_actor w)"
    and "set ms \<subseteq> set ms'"
  using assms
  by (auto simp: decreaseByOne_def split: if_splits)

lemma handleRestConditions_scenario:
  assumes f: "hasCondition (w_actor w) ''fatigued''"
      and d: "getCondition (w_actor w) ''doomed'' = Some (Some 1)"
      and wd: "hasCondition (w_actor w) ''wounded''"
      and hp: "hp_value (w_actor w) < hp_max (w_actor w)"
      and r: "handleRestConditions (w, ms) = (w', ms')"
  shows "getCondition (w_actor w') ''fatigued'' = None"
    and "getCondition (w_actor w') ''doomed'' = None"
    and "getCondition (w_actor w') ''wounded'' = getCondition (w_actor w) ''wounded''"
    and "conditionRemoved ''Fatigued'' \<in> set ms'"
    and "conditionRemoved ''Doomed'' \<in> set ms'"
    and "Localize ''HIT_DICE_HEALING.WoundsNotHealed'' \<in> set ms'"
proof -
  define w1 where "w1 = decreaseCondition ''fatigued'' True w"
  define m1 where "m1 = ms @ [conditionRemoved ''Fatigued'']"
  have 1: "removeFatigued (w, ms) = (w1, m1)"
    using f by (simp add: removeFatigued_def w1_def m1_def)
  have c1: "getCondition (w_actor w1) ''fatigued'' = None"
    "getCondition (w_actor w1) ''doomed'' = Some (Some 1)"
    "getCondition (w_actor w1) ''wounded'' = getCondition (w_actor w) ''wounded''"
    "hp_value (w_actor w1) = hp_value (w_actor w)" "hp_max (w_actor w1) = hp_max (w_actor w)"
    using d by (simp_all add: w1_def getCondition_decreaseCondition split: option.splits)
  define w2 where "w2 = decreaseCondition ''doomed'' True w1"
  define m2 where "m2 = m1 @ [conditionRemoved ''Doomed'']"
  have 2: "decreaseByOne ''doomed'' ''Doomed'' (w1, m1) = (w2, m2)"
    using c1(2)
    by (simp add: decreaseByOne_def hasCondition_getCondition valueAtMostOne_def w2_def m2_def)
  have c2: "getCondition (w_actor w2) ''fatigued'' = None"
    "getCondition (w_actor w2) ''doomed'' = None"
    "getCondition (w_actor w2) ''wounded'' = getCondition (w_actor w) ''wounded''"
    "hp_value (w_actor w2) = hp_value (w_actor w)" "hp_max (w_actor w2) = hp_max (w_actor w)"
    using c1 by (simp_all add: w2_def getCondition_decreaseCondition)
  obtain w3 m3 where 3: "decreaseByOne ''drained'' ''Drained'' (w2, m2) = (w3, m3)"
    by (cases "decreaseByOne ''drained'' ''Drained'' (w2, m2)")
  have c3: "getCondition (w_actor w3) ''fatigued'' = None"
    "getCondition (w_actor w3) ''doomed'' = None"
    "getCondition (w_actor w3) ''wounded'' = getCondition (w_actor w) ''wounded''"
    "hp_value (w_actor w3) = hp_value (w_actor w)" "hp_max (w_actor w3) = hp_max (w_actor w)"
    "set m2 \<subseteq> set m3"
    using decreaseByOne_other [OF 3] decreaseByOne_frame [OF 3] c2 by simp_all
  have 4: "removeWounded (w3, m3) = (w3, m3 @ [Localize ''HIT_DICE_HEALING.WoundsNotHealed''])"
    using wd hp c3(3,4,5) by (simp add: removeWounded_def hasCondition_getCondition)
  have res: "w' = w3" "ms' = m3 @ [Localize ''HIT_DICE_HEALING.WoundsNotHealed'']"
    using r by (simp_all add: handleRestConditions_def 1 2 3 4)
  show "getCondition (w_actor w') ''fatigued'' = None" by (simp add: res c3)
  show "getCondition (w_actor w') ''doomed'' = None" by (simp add: res c3)
  show "getCondition (w_actor w') ''wounded'' = getCondition (w_actor w) ''wounded''"
    by (simp add: res c3)
  show "conditionRemoved ''Fatigued'' \<in> set ms'" using c3(6) by (auto simp: res m2_def m1_def)
  show "conditionRemoved ''Doomed'' \<in> set ms'" using c3(6) by (auto simp: res m2_def)
  show "Localize ''HIT_DICE_HEALING.WoundsNotHealed'' \<in> set ms'" by (simp add: res)
qed

subsection \<open>The pool after a Long Rest\<close>

lemma getCurrentHitDice_replenish:
  "getCurrentHitDice (w_actor (snd (replenishHitDice w))) =
     (if getCurrentHitDice (w_actor w) < getMaxHitDice (w_actor w)
      then max 0 (getMaxHitDice (w_actor w)) else getCurrentHitDice (w_actor w))"
  by (auto simp: replenishHitDice_def Let_def setCurrentHitDice_def setFlagCurrent_def
        getCurrentHitDice_def getMaxHitDice_def split: option.splits)

lemma pool_depends:
  assumes "hdFlag a' = hdFlag a" and "a_level a' = a_level a"
  shows "getCurrentHitDice a' = getCurrentHitDice a" and "getMaxHitDice a' = getMaxHitDice a"
  using assms by (simp_all add: getCurrentHitDice_def getMaxHitDice_def split: option.splits)

text \<open>
  C6. Long Rest on a character that is fatigued, doomed at value 1 and wounded, with
  the HP below its maximum: afterwards fatigued and doomed are gone, wounded is still
  there, the HP is unchanged, and the summary reports both removals and that the
  wounds did not heal. The pool becomes the maximum when it was below it and keeps its
  value otherwise; so it ends at the maximum whenever it was between 0 and the maximum
  before the rest.
\<close>

theorem longRest_scenario:
  assumes "hasCondition (w_actor w) ''fatigued''"
      and "getCondition (w_actor w) ''doomed'' = Some (Some 1)"
      and "hasCondition (w_actor w) ''wounded''"
      and "hp_value (w_actor w) < hp_max (w_actor w)"
  shows "\<not> hasCondition (w_actor (performLongRest w)) ''fatigued''
       \<and> \<not> hasCondition (w_actor (performLongRest w)) ''doomed''
       \<and> hasCondition (w_actor (performLongRest w)) ''wounded''
       \<and> hp_value (w_actor (performLongRest w)) = hp_value (w_actor w)
       \<and> (case restSummaries (newEvents w (performLongRest w)) of
             [ms] \<Rightarrow> conditionRemoved ''Fatigued'' \<in> set ms
                   \<and> conditionRemoved ''Doomed'' \<in> set ms
                   \<and> Localize ''HIT_DICE_HEALING.WoundsNotHealed'' \<in> set ms
           | _ \<Rightarrow> False)
       \<and> getCurrentHitDice (w_actor (performLongRest w)) =
           (if getCurrentHitDice (w_actor w) < getMaxHitDice (w_actor w)
            then max 0 (getMaxHitDice (w_actor w)) else getCurrentHitDice (w_actor w))
       \<and> (0 \<le> getCurrentHitDice (w_actor w)
            \<and> getCurrentHitDice (w_actor w) \<le> getMaxHitDice (w_actor w)
          \<longrightarrow> getCurrentHitDice (w_actor (performLongRest w))
                = getMaxHitDice (w_actor (performLongRest w)))"
proof -
  let ?w1 = "snd (replenishHitDice w)"
  obtain H F R d C I pre mid ms1 w2 ms2 where s:
    "w_actor (performLongRest w)
       = (w_actor w)\<lparr>hdFlag := H, a_focus := F, a_reagents := R,
                    a_dailyCraftingComplete := d, a_conditions := C, a_items := I\<rparr>"
    "H = hdFlag (w_actor ?w1)"
    "handleRestConditions (?w1, ms1) = (w2, ms2)"
    "C = a_conditions (w_actor w2)"
    "w_log (performLongRest w)
       = w_log w @ pre
           @ (if focusPart (w_actor w) @ reagentsPart (w_actor w) = [] then []
              else [ActorUpdate (focusPart (w_actor w) @ reagentsPart (w_actor w)) False])
           @ [ChatMessage (RestCard ''long''
                (ms2 @ mid @ [Localize ''HIT_DICE_HEALING.HPUnchanged'',
                              Localize ''HIT_DICE_HEALING.SpellSlotsUnchanged'']))]
           @ (if a_sheetRendered (w_actor w) then [SheetRender] else [])"
    "list_all restStepEvent pre"
    by (rule performLongRest_shape [of w])
  obtain H1 where a1: "w_actor ?w1 = (w_actor w)\<lparr>hdFlag := H1\<rparr>"
    using replenishHitDice_actor by blast
  have pre1: "hasCondition (w_actor ?w1) ''fatigued''"
    "getCondition (w_actor ?w1) ''doomed'' = Some (Some 1)"
    "hasCondition (w_actor ?w1) ''wounded''"
    "hp_value (w_actor ?w1) < hp_max (w_actor ?w1)"
    using assms by (simp_all add: a1 hasCondition_def getCondition_def)
  note sc = handleRestConditions_scenario [OF pre1 s(3)]
  have cond: "getCondition (w_actor (performLongRest w)) c = getCondition (w_actor w2) c" for c
    by (simp add: s(1) s(4) getCondition_def)
  have wounded: "getCondition (w_actor w2) ''wounded'' \<noteq> None"
    using sc(3) pre1(3) by (simp add: hasCondition_getCondition)
  have hp: "hp_value (w_actor (performLongRest w)) = hp_value (w_actor w)"
    by (simp add: s(1))
  have new: "newEvents w (performLongRest w) = pre
           @ (if focusPart (w_actor w) @ reagentsPart (w_actor w) = [] then []
              else [ActorUpdate (focusPart (w_actor w) @ reagentsPart (w_actor w)) False])
           @ [ChatMessage (RestCard ''long''
                (ms2 @ mid @ [Localize ''HIT_DICE_HEALING.HPUnchanged'',
                              Localize ''HIT_DICE_HEALING.SpellSlotsUnchanged'']))]
           @ (if a_sheetRendered (w_actor w) then [SheetRender] else [])"
    by (simp add: newEvents_def s(5))
  have summ: "restSummaries (newEvents w (performLongRest w)) =
      [ms2 @ mid @ [Localize ''HIT_DICE_HEALING.HPUnchanged'',
                    Localize ''HIT_DICE_HEALING.SpellSlotsUnchanged'']]"
    unfolding new
    by (simp add: restSummaries_append restStepEvents_filters(4) [OF s(6)] batch_events)
  have "hdFlag (w_actor (performLongRest w)) = hdFlag (w_actor ?w1)"
    "a_level (w_actor (performLongRest w)) = a_level (w_actor ?w1)"
    by (simp_all add: s(1) s(2) a1)
  note p = pool_depends [OF this]
  have mx1: "getMaxHitDice (w_actor ?w1) = getMaxHitDice (w_actor w)"
    by (simp add: a1 getMaxHitDice_def)
  have pool: "getCurrentHitDice (w_actor (performLongRest w)) =
           (if getCurrentHitDice (w_actor w) < getMaxHitDice (w_actor w)
            then max 0 (getMaxHitDice (w_actor w)) else getCurrentHitDice (w_actor w))"
    by (simp only: p(1) getCurrentHitDice_replenish)
  have mx: "getMaxHitDice (w_actor (performLongRest w)) = getMaxHitDice (w_actor w)"
    by (simp only: p(2) mx1)
  show ?thesis
    using sc(1,2,4,5,6) wounded
    by (auto simp: hasCondition_getCondition cond hp summ pool mx)
qed

lemma performLongRest_pool:
  "hdFlag (w_actor (performLongRest w)) = hdFlag (w_actor (snd (replenishHitDice w)))"
  "a_level (w_actor (performLongRest w)) = a_level (w_actor w)"
  "getMaxHitDice (w_actor (performLongRest w)) = getMaxHitDice (w_actor w)"
  "getCurrentHitDice (w_actor (performLongRest w)) =
     (if getCurrentHitDice (w_actor w) < getMaxHitDice (w_actor w)
      then max 0 (getMaxHitDice (w_actor w)) else getCurrentHitDice (w_actor w))"
proof -
  let ?w1 = "snd (replenishHitDice w)"
  obtain H F R d C I pre mid ms1 w2 ms2 where s:
    "w_actor (performLongRest w)
       = (w_actor w)\<lparr>hdFlag := H, a_focus := F, a_reagents := R,
                    a_dailyCraftingComplete := d, a_conditions := C, a_items := I\<rparr>"
    "H = hdFlag (w_actor ?w1)"
    by (rule performLongRest_shape [of w])
  obtain H1 where a1: "w_actor ?w1 = (w_actor w)\<lparr>hdFlag := H1\<rparr>"
    using replenishHitDice_actor by blast
  show 1: "hdFlag (w_actor (performLongRest w)) = hdFlag (w_actor ?w1)"
    by (simp add: s)
  show 2: "a_level (w_actor (performLongRest w)) = a_level (w_actor w)"
    by (simp add: s(1))
  have "a_level (w_actor (performLongRest w)) = a_level (w_actor ?w1)"
    by (simp add: s(1) a1)
  note p = pool_depends [OF 1 this]
  show "getMaxHitDice (w_actor (performLongRest w)) = getMaxHitDice (w_actor w)"
    using 2 by (simp add: getMaxHitDice_def)
  show "getCurrentHitDice (w_actor (performLongRest w)) =
     (if getCurrentHitDice (w_actor w) < getMaxHitDice (w_actor w)
      then max 0 (getMaxHitDice (w_actor w)) else getCurrentHitDice (w_actor w))"
    by (simp only: p(1) getCurrentHitDice_replenish)
qed

lemma sample_conditions:
  "hasCondition sampleActor ''fatigued''"
  "getCondition sampleActor ''doomed'' = Some (Some 1)"
  "hasCondition sampleActor ''wounded''"
  by (simp_all add: hasCondition_def getCondition_def sampleActor_def)

lemma leveledDown_conditions:
  "hasCondition (w_actor leveledDownWorld) ''fatigued''"
  "getCondition (w_actor leveledDownWorld) ''doomed'' = Some (Some 1)"
  "hasCondition (w_actor leveledDownWorld) ''wounded''"
  "hp_value (w_actor leveledDownWorld) = 10" "hp_max (w_actor leveledDownWorld) = 40"
  by (simp_all add: leveledDownWorld_def Let_def setCurrentHitDice_def setFlagCurrent_def
        sampleWorld_def hasCondition_def getCondition_def sampleActor_def)

theorem longRest_scenario_witness:
  "hasCondition (w_actor sampleWorld) ''fatigued''
 \<and> getCondition (w_actor sampleWorld) ''doomed'' = Some (Some 1)
 \<and> hasCondition (w_actor sampleWorld) ''wounded''
 \<and> hp_value (w_actor sampleWorld) = 10 \<and> hp_max (w_actor sampleWorld) = 40
 \<and> getCurrentHitDice (w_actor sampleWorld) = 2
 \<and> \<not> hasCondition (w_actor (performLongRest sampleWorld)) ''fatigued''
 \<and> \<not> hasCondition (w_actor (performLongRest sampleWorld)) ''doomed''
 \<and> hasCondition (w_actor (performLongRest sampleWorld)) ''wounded''
 \<and> hp_value (w_actor (performLongRest sampleWorld)) = 10
 \<and> getMaxHitDice (w_actor (performLongRest sampleWorld)) = 6
 \<and> getCurrentHitDice (w_actor (performLongRest sampleWorld)) = 6"
  using longRest_scenario [of sampleWorld]
  by (simp add: sample_world sample_conditions sample_pool)

theorem longRest_scenario_counterexample:
  "hasCondition (w_actor leveledDownWorld) ''fatigued''
 \<and> getCondition (w_actor leveledDownWorld) ''doomed'' = Some (Some 1)
 \<and> hasCondition (w_actor leveledDownWorld) ''wounded''
 \<and> hp_value (w_actor leveledDownWorld) < hp_max (w_actor leveledDownWorld)
 \<and> getMaxHitDice (w_actor (performLongRest leveledDownWorld)) = 2
 \<and> getCurrentHitDice (w_actor (performLongRest leveledDownWorld)) = 5
 \<and> getCurrentHitDice (w_actor (performLongRest leveledDownWorld))
      \<noteq> getMaxHitDice (w_actor (performLongRest leveledDownWorld))"
  by (simp add: leveledDown_conditions performLongRest_pool leveledDown_pool)

lemma restStepEvents_prefix:
  assumes "list_all restStepEvent es"
  shows "takeWhile (\<lambda>e. \<not> isActorUpdate e \<and> \<not> isChat e) (es @ rest)
           = es @ takeWhile (\<lambda>e. \<not> isActorUpdate e \<and> \<not> isChat e) rest"
    and "dropWhile (\<lambda>e. \<not> isActorUpdate e) (es @ rest) = dropWhile (\<lambda>e. \<not> isActorUpdate e) rest"
    and "filter isWrite es = es"
  using assms
  by (induction es)
     (auto simp: restStepEvent_quiet restStepEvent_def isWrite_def split: event.splits)

text \<open>
  C9. In a Long Rest the changes accumulated for the batched update (focus and infused
  reagents) are written by one call of \<open>actor.update\<close>, or by none when nothing was
  accumulated: the events of the rest contain at most one actor update, and it carries
  exactly those changes. The summary is posted once, after that update, and no write
  follows the summary. The other writes of the rest (hit dice flag, conditions, item
  charges, crafting flag, deletion of temporary items) are calls of their own, all made
  before the batched update: the writes of the rest are the events before the update
  followed by the update, and from the update on it is the only write.
\<close>

theorem longRest_batched_update:
  "let new = newEvents w (performLongRest w);
       upd = focusPart (w_actor w) @ reagentsPart (w_actor w);
       before = takeWhile (\<lambda>e. \<not> isActorUpdate e \<and> \<not> isChat e) new
   in w_log (performLongRest w) = w_log w @ new
    \<and> filter isActorUpdate new = (if upd = [] then [] else [ActorUpdate upd False])
    \<and> length (filter isActorUpdate new) \<le> 1
    \<and> length (filter isChat new) = 1
    \<and> filter isWrite (dropWhile (\<lambda>e. \<not> isChat e) new) = []
    \<and> list_all restStepEvent before
    \<and> filter isWrite new = before @ filter isActorUpdate new
    \<and> filter isWrite (dropWhile (\<lambda>e. \<not> isActorUpdate e) new) = filter isActorUpdate new"
proof -
  let ?upd = "focusPart (w_actor w) @ reagentsPart (w_actor w)"
  let ?batch = "if ?upd = [] then [] else [ActorUpdate ?upd False]"
  let ?tail = "if a_sheetRendered (w_actor w) then [SheetRender] else []"
  obtain H F R d C I pre mid ms1 w2 ms2 where s:
    "w_log (performLongRest w)
       = w_log w @ pre @ ?batch
           @ [ChatMessage (RestCard ''long''
                (ms2 @ mid @ [Localize ''HIT_DICE_HEALING.HPUnchanged'',
                              Localize ''HIT_DICE_HEALING.SpellSlotsUnchanged'']))]
           @ ?tail"
    "list_all restStepEvent pre"
    by (rule performLongRest_shape [of w])
  let ?chat = "ChatMessage (RestCard ''long''
                (ms2 @ mid @ [Localize ''HIT_DICE_HEALING.HPUnchanged'',
                              Localize ''HIT_DICE_HEALING.SpellSlotsUnchanged'']))"
  have new: "newEvents w (performLongRest w) = pre @ ?batch @ [?chat] @ ?tail"
    by (simp add: newEvents_def s(1))
  have log: "w_log (performLongRest w) = w_log w @ newEvents w (performLongRest w)"
    unfolding new by (simp add: s(1))
  have au: "filter isActorUpdate (newEvents w (performLongRest w)) = ?batch"
    unfolding new
    by (simp add: restStepEvents_filters(3) [OF s(2)] batch_events del: append_is_Nil_conv)
  have ch: "filter isChat (newEvents w (performLongRest w)) = [?chat]"
    unfolding new
    by (simp add: restStepEvents_filters(2) [OF s(2)] batch_events del: append_is_Nil_conv)
  have dw: "dropWhile (\<lambda>e. \<not> isChat e) (newEvents w (performLongRest w)) = ?chat # ?tail"
    unfolding new
    by (simp add: restStepEvents_filters(5) [OF s(2)] batch_events del: append_is_Nil_conv)
  have wr: "filter isWrite (?chat # ?tail) = []"
    by (simp add: batch_events)
  have tw: "takeWhile (\<lambda>e. \<not> isActorUpdate e \<and> \<not> isChat e) (newEvents w (performLongRest w)) = pre"
    unfolding new
    by (simp add: restStepEvents_prefix(1) [OF s(2)] batch_events del: append_is_Nil_conv)
  have fw: "filter isWrite (newEvents w (performLongRest w)) = pre @ ?batch"
    unfolding new
    by (simp add: restStepEvents_prefix(3) [OF s(2)] batch_events del: append_is_Nil_conv)
  have da: "filter isWrite (dropWhile (\<lambda>e. \<not> isActorUpdate e) (newEvents w (performLongRest w)))
              = ?batch"
    unfolding new
    by (simp add: restStepEvents_prefix(2) [OF s(2)] batch_events del: append_is_Nil_conv)
  show ?thesis
    unfolding Let_def au ch dw wr tw fw da using log s(2) by simp
qed

lemma sample_batch:
  "focusPart sampleActor = [(FocusValue, 2)]" "reagentsPart sampleActor = []"
  by (simp_all add: focusPart_def reagentsPart_def sampleActor_def)

theorem longRest_batched_update_witness:
  "filter isActorUpdate (newEvents sampleWorld (performLongRest sampleWorld))
     = [ActorUpdate [(FocusValue, 2)] False]
 \<and> length (filter isChat (newEvents sampleWorld (performLongRest sampleWorld))) = 1
 \<and> filter isWrite (dropWhile (\<lambda>e. \<not> isChat e)
      (newEvents sampleWorld (performLongRest sampleWorld))) = []
 \<and> filter isWrite (dropWhile (\<lambda>e. \<not> isActorUpdate e)
      (newEvents sampleWorld (performLongRest sampleWorld)))
     = [ActorUpdate [(FocusValue, 2)] False]"
  using longRest_batched_update [of sampleWorld]
  by (simp add: Let_def sample_world sample_batch)


lemma sample_longRest_log:
  "w_log (performLongRest sampleWorld) =
      [SetFlag ''hit-dice-healing'' ''current'' (FInt 6),
       DecreaseCondition ''fatigued'' True,
       DecreaseCondition ''doomed'' True,
       ItemUpdate ''w1'' [(FrequencyValue, 1)] False,
       ItemUpdate ''f1'' [(FrequencyValue, 1)] False,
       DeleteEmbedded [''t1''], ActorUpdate [(FocusValue, 2)] False,
       ChatMessage
        (RestCard ''long''
          [Format ''HIT_DICE_HEALING.HitDiceRestored''
            [(''count'', AInt 4)],
           Localize ''HIT_DICE_HEALING.FocusRestored'',
           Format ''HIT_DICE_HEALING.ConditionRemoved''
            [(''condition'', AStr ''Fatigued'')],
           Format ''HIT_DICE_HEALING.ConditionRemoved''
            [(''condition'', AStr ''Doomed'')],
           Localize ''HIT_DICE_HEALING.WoundsNotHealed'',
           Localize ''HIT_DICE_HEALING.TemporaryItemsExpired'',
           Localize ''HIT_DICE_HEALING.DailyResourcesReset'',
           Localize ''HIT_DICE_HEALING.HPUnchanged'',
           Localize ''HIT_DICE_HEALING.SpellSlotsUnchanged'']),
       SheetRender]"
  by code_simp

theorem longRest_several_updates_counterexample:
  "length (filter isFieldUpdate (newEvents sampleWorld (performLongRest sampleWorld))) = 3
 \<and> \<not> length (filter isFieldUpdate (newEvents sampleWorld (performLongRest sampleWorld))) \<le> 1"
  by (simp add: newEvents_def sample_longRest_log sample_world isFieldUpdate_def)

section \<open>The invariant of the pool\<close>















end
